theory Spec2Isabelle
  imports Main
begin

section \<open>oopsie.js: an exception handling and reporting library\<close>

text \<open>
  A shallow embedding of \<^verbatim>\<open>src/oopsie.js\<close>. Every function of the source that the
  verified properties talk about is a HOL function of the same name; mutable module
  variables (\<^verbatim>\<open>errors\<close>, \<^verbatim>\<open>errorFactories\<close>, \<^verbatim>\<open>translators\<close>, \<^verbatim>\<open>reportHandlers\<close>,
  \<^verbatim>\<open>oopsie.report\<close>, \<^verbatim>\<open>oopsie.dev\<close>) are fields of one state record that is passed
  through; a JavaScript exception is the left summand of a sum type.

  Reading of the source. The closing brace of the \<^verbatim>\<open>catch\<close> block inside
  \<^verbatim>\<open>circularRefSafeTranslate\<close> (line 256) is missing in the file; the functions are
  modelled with the block structure that the indentation shows.
\<close>

subsection \<open>Text: decimal numerals, joining, searching\<close>

definition is_digit :: "char \<Rightarrow> bool" where
  "is_digit c = (c \<in> set ''0123456789'')"

definition digit_value :: "char \<Rightarrow> nat" where
  "digit_value c = of_char c - 48"

text \<open>
  \<^verbatim>\<open>parseInt(ds, 10)\<close> on a non-empty run of decimal digits, as the exact number.
  Where the source rounds a long run to a double, the comparison with the length of an
  array and the read at that index come out the same.
\<close>

definition parseInt :: "string \<Rightarrow> nat" where
  "parseInt ds = foldl (\<lambda>n c. 10 * n + digit_value c) 0 ds"

text \<open>
  The order in which the members of an object are enumerated (by \<^verbatim>\<open>for ... in\<close>, by
  \<^verbatim>\<open>$.extend\<close>, by the JSON encoder): the names that are array indices first, in
  numeric order, then the other names in the order in which they were created. An array
  index is the decimal text, without leading zeros, of a number below \<^verbatim>\<open>2^32 - 1\<close>.
\<close>

definition is_index :: "string \<Rightarrow> bool" where
  "is_index k =
     (k \<noteq> [] \<and> list_all is_digit k \<and> (k = ''0'' \<or> hd k \<noteq> CHR ''0'') \<and>
      parseInt k < 4294967295)"

definition enumeration_order :: "(string \<times> 'a) list \<Rightarrow> (string \<times> 'a) list" where
  "enumeration_order ps =
     sort_key (\<lambda>p. parseInt (fst p)) (filter (\<lambda>p. is_index (fst p)) ps) @
     filter (\<lambda>p. \<not> is_index (fst p)) ps"

text \<open>The decimal text of a natural number, as string concatenation with a number gives it.\<close>

function decimal :: "nat \<Rightarrow> string" where
  "decimal n =
     (if n < 10 then [''0123456789'' ! n]
      else decimal (n div 10) @ [''0123456789'' ! (n mod 10)])"
  by pat_completeness auto
termination
  by (relation "measure id") auto

declare decimal.simps [simp del]

text \<open>The text of an integer written in full.\<close>

definition show_int :: "int \<Rightarrow> string" where
  "show_int i = (if i < 0 then ''-'' @ decimal (nat (- i)) else decimal (nat i))"

text \<open>\<^verbatim>\<open>Array.prototype.join\<close> on an array of strings.\<close>

fun join :: "string \<Rightarrow> string list \<Rightarrow> string" where
  "join sep [] = []"
| "join sep [x] = x"
| "join sep (x # y # ys) = x @ sep @ join sep (y # ys)"

text \<open>\<open>strip_prefix p s\<close> is the rest of \<open>s\<close> after its prefix \<open>p\<close>, if \<open>s\<close> starts with \<open>p\<close>.\<close>

fun strip_prefix :: "string \<Rightarrow> string \<Rightarrow> string option" where
  "strip_prefix [] s = Some s"
| "strip_prefix (p # ps) [] = None"
| "strip_prefix (p # ps) (c # cs) = (if p = c then strip_prefix ps cs else None)"

text \<open>
  \<^verbatim>\<open>s.replace(pat, rep)\<close> with a string pattern: the first occurrence of \<open>pat\<close> is
  replaced (the replacement text used by the source is empty, so it holds no \<^verbatim>\<open>$\<close>
  pattern).
\<close>

fun replace_first :: "string \<Rightarrow> string \<Rightarrow> string \<Rightarrow> string" where
  "replace_first pat rep [] = (if pat = [] then rep else [])"
| "replace_first pat rep (c # cs) =
     (case strip_prefix pat (c # cs) of
        Some t \<Rightarrow> rep @ t
      | None \<Rightarrow> c # replace_first pat rep cs)"

subsection \<open>The identifier token\<close>

text \<open>
  \<^verbatim>\<open>errorIdRegExp = /__oopsieID_(\d+)__/\<close>. The text the pattern matches for the digits
  \<open>ds\<close> is \<open>make_token ds\<close>.
\<close>

definition make_token :: "string \<Rightarrow> string" where
  "make_token ds = ''__oopsieID_'' @ ds @ ''__''"

text \<open>
  A text holds an identifier token when the marker prefix, one or more decimal digits and
  the marker suffix stand somewhere in it, one after the other.
\<close>

definition contains_token :: "string \<Rightarrow> bool" where
  "contains_token x =
     (\<exists>b ds t. x = b @ make_token ds @ t \<and> ds \<noteq> [] \<and> list_all is_digit ds)"

text \<open>
  The pattern tried at the start of \<open>s\<close>: the digits matched by the group and the text
  after the match. The group is greedy; giving back digits cannot help, since the
  character after a shorter run is a digit and not an underscore.
\<close>

definition match_here :: "string \<Rightarrow> (string \<times> string) option" where
  "match_here s =
     (case strip_prefix ''__oopsieID_'' s of
        None \<Rightarrow> None
      | Some r \<Rightarrow>
          (if takeWhile is_digit r = [] then None
           else (case strip_prefix ''__'' (dropWhile is_digit r) of
                   None \<Rightarrow> None
                 | Some t \<Rightarrow> Some (takeWhile is_digit r, t))))"

text \<open>
  \<^verbatim>\<open>msg.match(errorIdRegExp)\<close>: the leftmost match, as the text before it, the digits
  of the group (\<^verbatim>\<open>m[1]\<close>) and the text after it; \<^verbatim>\<open>m[0]\<close> is \<open>make_token\<close> of the
  digits. \<open>None\<close> is the source's \<^verbatim>\<open>null\<close>.
\<close>

fun regexp_match :: "string \<Rightarrow> (string \<times> string \<times> string) option" where
  "regexp_match [] = None"
| "regexp_match (c # cs) =
     (case match_here (c # cs) of
        Some (ds, t) \<Rightarrow> Some ([], ds, t)
      | None \<Rightarrow>
          (case regexp_match cs of
             None \<Rightarrow> None
           | Some (b, ds, t) \<Rightarrow> Some (c # b, ds, t)))"

definition filterOutOopsieId :: "string \<Rightarrow> string" where
  "filterOutOopsieId msg =
     (case regexp_match msg of
        Some (b, ds, t) \<Rightarrow> replace_first (make_token ds) [] msg
      | None \<Rightarrow> msg)"

subsection \<open>JavaScript values, thrown values and the object store\<close>

text \<open>
  Numbers are the integer-valued ones (an integer that no double equals stands for no
  value of the program), together with \<^verbatim>\<open>NaN\<close> and the two infinities.
  A composite value is a reference \<open>JRef a\<close> into the store, so that two occurrences of
  one object are equal as values and an object can contain itself.
\<close>

datatype jsval =
    JUndefined
  | JNull
  | JBool bool
  | JNum int
  | JNaN
  | JPosInfinity
  | JNegInfinity
  | JStr string
  | JRef nat

text \<open>
  What a \<^verbatim>\<open>catch\<close> clause receives: a value thrown by program code, or an error object
  created by the engine itself, given by its \<^verbatim>\<open>message\<close>.
\<close>

datatype exn =
    Thrown jsval
  | TypeError string
  | ReferenceError string

type_synonym props = "(string \<times> jsval) list"

text \<open>
  The objects of the store, each with its own enumerable properties in insertion order.
  \<^item> \<open>Object\<close>: a plain object (also an \<^verbatim>\<open>arguments\<close> object, whose elements are its
    enumerable properties \<^verbatim>\<open>"0"\<close>, \<^verbatim>\<open>"1"\<close>, ...).
  \<^item> \<open>Function\<close>: a function, with its own \<^verbatim>\<open>name\<close> property if it has one.
  \<^item> \<open>RegExp\<close>: a regular expression, given by the text \<^verbatim>\<open>toString\<close> returns.
  \<^item> \<open>Error\<close>: the result of \<^verbatim>\<open>new Error(msg)\<close>: the own, non-enumerable \<^verbatim>\<open>message\<close>
    (absent when \<^verbatim>\<open>msg\<close> is undefined) and the enumerable properties assigned later.
  \<^item> \<open>ThrowingToJSON\<close>: an object without own properties whose inherited \<^verbatim>\<open>toJSON\<close>
    method throws the given value.
\<close>

datatype jsobj =
    Object props
  | Array "jsval list"
  | Function "string option"
  | RegExp string
  | Error "string option" props
  | ThrowingToJSON exn

definition heap_get :: "jsobj list \<Rightarrow> nat \<Rightarrow> jsobj option" where
  "heap_get h a = (if a < length h then Some (h ! a) else None)"

fun lookup_prop :: "props \<Rightarrow> string \<Rightarrow> jsval" where
  "lookup_prop [] k = JUndefined"
| "lookup_prop ((k', v) # ps) k = (if k' = k then v else lookup_prop ps k)"

text \<open>Assignment \<^verbatim>\<open>o[k] = v\<close>: an existing property keeps its place, a new one comes last.\<close>

fun set_prop :: "props \<Rightarrow> string \<Rightarrow> jsval \<Rightarrow> props" where
  "set_prop [] k v = [(k, v)]"
| "set_prop ((k', v') # ps) k v = (if k' = k then (k, v) # ps else (k', v') # set_prop ps k v)"

fun has_prop :: "props \<Rightarrow> string \<Rightarrow> bool" where
  "has_prop [] k = False"
| "has_prop ((k', v) # ps) k = (k' = k \<or> has_prop ps k)"

fun truthy :: "jsval \<Rightarrow> bool" where
  "truthy JUndefined = False"
| "truthy JNull = False"
| "truthy (JBool b) = b"
| "truthy (JNum n) = (n \<noteq> 0)"
| "truthy JNaN = False"
| "truthy JPosInfinity = True"
| "truthy JNegInfinity = True"
| "truthy (JStr s) = (s \<noteq> [])"
| "truthy (JRef a) = True"

text \<open>\<^verbatim>\<open>typeof(value) === 'object'\<close>: true of \<^verbatim>\<open>null\<close> and of every object but a function.\<close>

definition typeof_object :: "jsobj list \<Rightarrow> jsval \<Rightarrow> bool" where
  "typeof_object h v =
     (case v of
        JNull \<Rightarrow> True
      | JRef a \<Rightarrow> (case heap_get h a of Some (Function n) \<Rightarrow> False | _ \<Rightarrow> True)
      | _ \<Rightarrow> False)"

definition isFunction :: "jsobj list \<Rightarrow> jsval \<Rightarrow> bool" where
  "isFunction h v =
     (case v of
        JRef a \<Rightarrow> (case heap_get h a of Some (Function n) \<Rightarrow> True | _ \<Rightarrow> False)
      | _ \<Rightarrow> False)"

text \<open>
  Reading the property \<open>k\<close> of an object. \<^verbatim>\<open>Error.prototype.message\<close> is the empty
  string, which an error created without a message inherits.
\<close>

definition object_property :: "jsobj \<Rightarrow> string \<Rightarrow> jsval" where
  "object_property ob k =
     (case ob of
        Object ps \<Rightarrow> lookup_prop ps k
      | Error m ps \<Rightarrow>
          (if k = ''message'' then
             (case m of
                Some s \<Rightarrow> JStr s
              | None \<Rightarrow> (if has_prop ps k then lookup_prop ps k else JStr []))
           else lookup_prop ps k)
      | Function n \<Rightarrow>
          (if k = ''name'' then (case n of Some s \<Rightarrow> JStr s | None \<Rightarrow> JUndefined)
           else JUndefined)
      | _ \<Rightarrow> JUndefined)"

text \<open>\<^verbatim>\<open>v.k\<close>: a TypeError on \<^verbatim>\<open>undefined\<close> and \<^verbatim>\<open>null\<close>.\<close>

definition get_property :: "jsobj list \<Rightarrow> jsval \<Rightarrow> string \<Rightarrow> exn + jsval" where
  "get_property h v k =
     (case v of
        JUndefined \<Rightarrow> Inl (TypeError ''cannot read a property of undefined'')
      | JNull \<Rightarrow> Inl (TypeError ''cannot read a property of null'')
      | JRef a \<Rightarrow>
          (case heap_get h a of Some ob \<Rightarrow> Inr (object_property ob k) | None \<Rightarrow> Inr JUndefined)
      | _ \<Rightarrow> Inr JUndefined)"

text \<open>
  The properties a \<^verbatim>\<open>for ... in\<close> loop and the JSON encoder enumerate, in the order
  in which they do.
\<close>

definition enumerable_props :: "jsobj \<Rightarrow> props" where
  "enumerable_props ob =
     (case ob of
        Object ps \<Rightarrow> enumeration_order ps
      | Error m ps \<Rightarrow> enumeration_order ps
      | Array es \<Rightarrow> zip (map decimal [0..<length es]) es
      | _ \<Rightarrow> [])"

text \<open>
  What the library takes from its host and cannot be read off the source:
  \<^item> \<open>printStackTrace\<close>: \<^verbatim>\<open>window.printStackTrace\<close>, absent or returning these frames;
  \<^item> \<open>objectToString\<close>: the outcome of calling the \<^verbatim>\<open>toString\<close> method of an object;
  \<^item> \<open>jQueryToString\<close>: the outcome of the source's \<^verbatim>\<open>jQueryToString\<close>, which goes
    through the DOM;
  \<^item> \<open>callInherited\<close>: the outcome of calling a member that \<^verbatim>\<open>errorFactories\<close>, a plain
    object, inherits from \<^verbatim>\<open>Object.prototype\<close>;
  \<^item> \<open>globalMessage\<close>: the variable \<^verbatim>\<open>message\<close> of the global object. The program
    declares no variable of that name, so the identifier \<^verbatim>\<open>message\<close> in \<^verbatim>\<open>audit\<close>
    denotes the host's: \<open>None\<close> where the host defines none, else its value, taken to be a
    string;
  \<^item> \<open>exponentText\<close>: the text of a number of magnitude \<^verbatim>\<open>1e21\<close> or more, which the
    engine prints in exponent form.
\<close>

record env =
  printStackTrace :: "string list option"
  objectToString :: "nat \<Rightarrow> exn + string"
  jQueryToString :: "jsval \<Rightarrow> exn + string"
  callInherited :: "string \<Rightarrow> exn + jsval"
  globalMessage :: "string option"
  exponentText :: "int \<Rightarrow> string"

text \<open>The text of a number: in full below \<^verbatim>\<open>1e21\<close>, in exponent form from there on.\<close>

definition number_text :: "env \<Rightarrow> int \<Rightarrow> string" where
  "number_text e i =
     (if \<bar>i\<bar> < 1000000000000000000000 then show_int i else exponentText e i)"

text \<open>Conversion to a string, as \<^verbatim>\<open>+\<close> with a string operand performs it.\<close>

definition to_string :: "env \<Rightarrow> jsval \<Rightarrow> exn + string" where
  "to_string e v =
     (case v of
        JUndefined \<Rightarrow> Inr ''undefined''
      | JNull \<Rightarrow> Inr ''null''
      | JBool b \<Rightarrow> Inr (if b then ''true'' else ''false'')
      | JNum n \<Rightarrow> Inr (number_text e n)
      | JNaN \<Rightarrow> Inr ''NaN''
      | JPosInfinity \<Rightarrow> Inr ''Infinity''
      | JNegInfinity \<Rightarrow> Inr ''-Infinity''
      | JStr s \<Rightarrow> Inr s
      | JRef a \<Rightarrow> objectToString e a)"

text \<open>\<^verbatim>\<open>err.message\<close> for the parameter of a \<^verbatim>\<open>catch\<close> clause.\<close>

definition message_of :: "jsobj list \<Rightarrow> exn \<Rightarrow> exn + jsval" where
  "message_of h err =
     (case err of
        Thrown v \<Rightarrow> get_property h v ''message''
      | TypeError m \<Rightarrow> Inr (JStr m)
      | ReferenceError m \<Rightarrow> Inr (JStr m))"

text \<open>The quoting of a string by \<^verbatim>\<open>JSON.stringify\<close>.\<close>

definition hex_digit :: "nat \<Rightarrow> char" where
  "hex_digit n = ''0123456789abcdef'' ! n"

definition quote_char :: "char \<Rightarrow> string" where
  "quote_char c =
     (if c = CHR 0x22 then [CHR 0x5C, CHR 0x22]
      else if c = CHR 0x5C then [CHR 0x5C, CHR 0x5C]
      else if c = CHR 0x08 then [CHR 0x5C, CHR ''b'']
      else if c = CHR 0x0C then [CHR 0x5C, CHR ''f'']
      else if c = CHR 0x0A then [CHR 0x5C, CHR ''n'']
      else if c = CHR 0x0D then [CHR 0x5C, CHR ''r'']
      else if c = CHR 0x09 then [CHR 0x5C, CHR ''t'']
      else if (of_char c :: nat) < 32 then
        [CHR 0x5C, CHR ''u'', CHR ''0'', CHR ''0'',
         hex_digit (of_char c div 16), hex_digit (of_char c mod 16)]
      else [c])"

definition quote :: "string \<Rightarrow> string" where
  "quote s = [CHR 0x22] @ concat (map quote_char s) @ [CHR 0x22]"

subsection \<open>The module state\<close>

text \<open>
  A translator is the pair \<^verbatim>\<open>[evaluator, translator]\<close> stored by \<^verbatim>\<open>addTranslator\<close>: a
  test on a value and a conversion of it, both of which may throw. They read the store
  and leave it unchanged.
\<close>

type_synonym translator =
  "(jsobj list \<Rightarrow> jsval \<Rightarrow> exn + bool) \<times> (jsobj list \<Rightarrow> jsval \<Rightarrow> exn + jsval)"

text \<open>
  A \<^verbatim>\<open>before\<close> hook is given by what it does to the deferred object it receives, in
  order and over time: it may resolve it, reject it, both, several times or never. An
  \<^verbatim>\<open>after\<close> hook is \<^verbatim>\<open>$.noop\<close> or a function known by a number. Either member of a
  handler may hold a value that is not a function.
\<close>

datatype gate_action = Resolve "jsval list" | Reject "jsval list"

datatype before_hook = BeforeNotCallable | Before "gate_action list"

datatype after_hook = AfterNotCallable | Noop | After nat

record handler =
  before :: before_hook
  after :: after_hook

text \<open>
  The value of \<^verbatim>\<open>oopsie.report\<close>. The module sets it to the namespace object
  \<^verbatim>\<open>{reporter: null, addHandler: addHandler}\<close>; \<open>ReportNamespace r\<close> is that object,
  with \<open>r\<close> telling whether the host has stored a reporter function in its \<^verbatim>\<open>reporter\<close>
  member. \<open>ReportFunction\<close> is a host that has replaced the whole of \<^verbatim>\<open>oopsie.report\<close>
  by a function.
\<close>

datatype report_binding = ReportNamespace bool | ReportFunction

text \<open>The calls that leave the library, in the order they happen.\<close>

datatype event =
    ReporterInvoked "jsval list"
  | AfterInvoked after_hook
  | Alert string
  | Debugger

text \<open>
  \<open>errorFactories\<close> maps a type to the \<^verbatim>\<open>factoryOptions\<close> object that the factory
  closure of that type holds; the closure itself is determined by its type, since a type
  is registered at most once.
\<close>

record state =
  heap :: "jsobj list"
  errors :: "jsval list"
  errorFactories :: "string \<rightharpoonup> props"
  translators :: "(string \<times> translator) list"
  reportHandlers :: "string \<rightharpoonup> handler"
  report :: report_binding
  alertOnAssertFailure :: bool
  debugOnAssertFailure :: bool
  events :: "event list"

subsection \<open>stringify\<close>

text \<open>\<^verbatim>\<open>$.inArray(value, seen)\<close>, with \<open>None\<close> for \<^verbatim>\<open>-1\<close>.\<close>

fun inArray :: "jsval \<Rightarrow> jsval list \<Rightarrow> nat option" where
  "inArray v [] = None"
| "inArray v (x # xs) =
     (if x = v then Some 0 else (case inArray v xs of None \<Rightarrow> None | Some i \<Rightarrow> Some (Suc i)))"

text \<open>
  The loop \<^verbatim>\<open>for (var k in translators)\<close> over the translators in the order given: the
  first translator whose evaluator holds converts the value; without one the value is
  returned as it is.
\<close>

fun apply_translators :: "(string \<times> translator) list \<Rightarrow> jsobj list \<Rightarrow> jsval \<Rightarrow> exn + jsval" where
  "apply_translators [] h v = Inr v"
| "apply_translators ((name, evaluator, translator) # ts) h v =
     (case evaluator h v of
        Inl err \<Rightarrow> Inl err
      | Inr True \<Rightarrow> translator h v
      | Inr False \<Rightarrow> apply_translators ts h v)"

text \<open>
  The \<^verbatim>\<open>catch\<close> clause of the replacer: \<^verbatim>\<open>'[translation error]: ' + err.message\<close>.
  Reading \<^verbatim>\<open>err.message\<close> and converting it to a string may throw in turn.
\<close>

definition translation_error :: "env \<Rightarrow> jsobj list \<Rightarrow> exn \<Rightarrow> exn + jsval" where
  "translation_error e h err =
     (case message_of h err of
        Inl e2 \<Rightarrow> Inl e2
      | Inr m \<Rightarrow>
          (case to_string e m of
             Inl e3 \<Rightarrow> Inl e3
           | Inr s \<Rightarrow> Inr (JStr (''[translation error]: '' @ s))))"

text \<open>
  The function returned by \<^verbatim>\<open>circularRefSafeTranslate()\<close>, with the array \<^verbatim>\<open>seen\<close> of its
  closure passed in and returned. Its \<^verbatim>\<open>key\<close> argument is not used by the source.
  \<open>translators st\<close> holds the translators in the order in which their names were first
  registered; the loop visits them in the enumeration order of that object.
\<close>

definition circularRefSafeTranslate ::
  "env \<Rightarrow> state \<Rightarrow> jsval list \<Rightarrow> jsval \<Rightarrow> exn + (jsval list \<times> jsval)" where
  "circularRefSafeTranslate e st seen v =
     (if typeof_object (heap st) v then
        (case inArray v seen of
           None \<Rightarrow>
             (case apply_translators (enumeration_order (translators st)) (heap st) v of
                Inr r \<Rightarrow> Inr (seen @ [v], r)
              | Inl err \<Rightarrow>
                  (case translation_error e (heap st) err of
                     Inl e2 \<Rightarrow> Inl e2
                   | Inr r \<Rightarrow> Inr (seen @ [v], r)))
         | Some seenAt \<Rightarrow> Inr (seen, JStr (''JSON.circularRef_'' @ decimal seenAt)))
      else
        (case apply_translators (enumeration_order (translators st)) (heap st) v of
           Inr r \<Rightarrow> Inr (seen, r)
         | Inl err \<Rightarrow>
             (case translation_error e (heap st) err of
                Inl e2 \<Rightarrow> Inl e2
              | Inr r \<Rightarrow> Inr (seen, r))))"

definition toJSON_throws :: "jsobj list \<Rightarrow> jsval \<Rightarrow> exn option" where
  "toJSON_throws h v =
     (case v of
        JRef a \<Rightarrow> (case heap_get h a of Some (ThrowingToJSON err) \<Rightarrow> Some err | _ \<Rightarrow> None)
      | _ \<Rightarrow> None)"

text \<open>The number of objects of the store that are not on the encoder's stack.\<close>

definition unvisited :: "state \<Rightarrow> nat list \<Rightarrow> nat" where
  "unvisited st stack = card ({..<length (heap st)} - set stack)"

lemma unvisited_push:
  assumes "heap_get (heap st) a = Some ob" and "a \<notin> set stack"
  shows "unvisited st (a # stack) < unvisited st stack"
proof -
  have a: "a \<in> {..<length (heap st)} - set stack"
    using assms by (auto simp: heap_get_def split: if_splits)
  have fin: "finite ({..<length (heap st)} - set stack)" by simp
  have "{..<length (heap st)} - set (a # stack) = ({..<length (heap st)} - set stack) - {a}"
    by auto
  then have "unvisited st (a # stack) = card (({..<length (heap st)} - set stack) - {a})"
    unfolding unvisited_def by simp
  also have "\<dots> < card ({..<length (heap st)} - set stack)"
    using fin a by (rule card_Diff1_less)
  finally show ?thesis unfolding unvisited_def .
qed

text \<open>
  \<^verbatim>\<open>JSON.stringify(o, replacer, '')\<close>, the library routine the source calls. For the
  value of a property it calls \<^verbatim>\<open>toJSON\<close>, then the replacer, and encodes the result:
  \<open>None\<close> stands for \<^verbatim>\<open>undefined\<close> (a member left out of an object, \<^verbatim>\<open>null\<close> in an
  array). \<open>stack\<close> holds the objects being encoded; meeting one of them again is the
  routine's own TypeError. \<open>seen\<close> is the array of the replacer's closure.
\<close>

function json_str ::
    "env \<Rightarrow> state \<Rightarrow> nat list \<Rightarrow> jsval list \<Rightarrow> jsval \<Rightarrow> exn + (jsval list \<times> string option)"
  and json_members ::
    "env \<Rightarrow> state \<Rightarrow> nat list \<Rightarrow> jsval list \<Rightarrow> props \<Rightarrow> exn + (jsval list \<times> string list)"
  and json_elements ::
    "env \<Rightarrow> state \<Rightarrow> nat list \<Rightarrow> jsval list \<Rightarrow> jsval list \<Rightarrow> exn + (jsval list \<times> string list)"
where
  "json_str e st stack seen v =
     (case toJSON_throws (heap st) v of
        Some err \<Rightarrow> Inl err
      | None \<Rightarrow>
          (case circularRefSafeTranslate e st seen v of
             Inl err \<Rightarrow> Inl err
           | Inr (seen1, v1) \<Rightarrow>
               (case v1 of
                  JUndefined \<Rightarrow> Inr (seen1, None)
                | JNull \<Rightarrow> Inr (seen1, Some ''null'')
                | JBool b \<Rightarrow> Inr (seen1, Some (if b then ''true'' else ''false''))
                | JNum n \<Rightarrow> Inr (seen1, Some (number_text e n))
                | JNaN \<Rightarrow> Inr (seen1, Some ''null'')
                | JPosInfinity \<Rightarrow> Inr (seen1, Some ''null'')
                | JNegInfinity \<Rightarrow> Inr (seen1, Some ''null'')
                | JStr s \<Rightarrow> Inr (seen1, Some (quote s))
                | JRef a \<Rightarrow>
                    (case heap_get (heap st) a of
                       None \<Rightarrow> Inr (seen1, None)
                     | Some (Function n) \<Rightarrow> Inr (seen1, None)
                     | Some (Array es) \<Rightarrow>
                         (if a \<in> set stack
                          then Inl (TypeError ''Converting circular structure to JSON'')
                          else (case json_elements e st (a # stack) seen1 es of
                                  Inl err \<Rightarrow> Inl err
                                | Inr (seen2, parts) \<Rightarrow>
                                    Inr (seen2, Some (''['' @ join '','' parts @ '']''))))
                     | Some ob \<Rightarrow>
                         (if a \<in> set stack
                          then Inl (TypeError ''Converting circular structure to JSON'')
                          else (case json_members e st (a # stack) seen1 (enumerable_props ob) of
                                  Inl err \<Rightarrow> Inl err
                                | Inr (seen2, parts) \<Rightarrow>
                                    Inr (seen2, Some (''{'' @ join '','' parts @ ''}''))))))))"
| "json_members e st stack seen [] = Inr (seen, [])"
| "json_members e st stack seen ((k, v) # ps) =
     (case json_str e st stack seen v of
        Inl err \<Rightarrow> Inl err
      | Inr (seen1, r) \<Rightarrow>
          (case json_members e st stack seen1 ps of
             Inl err \<Rightarrow> Inl err
           | Inr (seen2, parts) \<Rightarrow>
               Inr (seen2, (case r of None \<Rightarrow> parts | Some s \<Rightarrow> (quote k @ '':'' @ s) # parts))))"
| "json_elements e st stack seen [] = Inr (seen, [])"
| "json_elements e st stack seen (v # vs) =
     (case json_str e st stack seen v of
        Inl err \<Rightarrow> Inl err
      | Inr (seen1, r) \<Rightarrow>
          (case json_elements e st stack seen1 vs of
             Inl err \<Rightarrow> Inl err
           | Inr (seen2, parts) \<Rightarrow>
               Inr (seen2, (case r of None \<Rightarrow> ''null'' | Some s \<Rightarrow> s) # parts)))"
  by pat_completeness auto

text \<open>
  The encoder stops on every store, cyclic or not: each descent puts one more object of
  the store on the stack, and an object on the stack is not entered again.
\<close>

termination
  apply (relation "inv_image (less_than <*lex*> less_than)
     (\<lambda>x. case x of
        Inl (e, st, stack, seen, v) \<Rightarrow> (unvisited st stack, 0)
      | Inr (Inl (e, st, stack, seen, ps)) \<Rightarrow> (unvisited st stack, Suc (length ps))
      | Inr (Inr (e, st, stack, seen, vs)) \<Rightarrow> (unvisited st stack, Suc (length vs)))")
  apply (auto simp: unvisited_push)
  done

declare json_str.simps [simp del]

text \<open>
  \<^verbatim>\<open>stringify(o)\<close>: the encoding, or in the \<^verbatim>\<open>catch\<close> clause
  \<^verbatim>\<open>'stringify error: ' + err.message\<close>, whose evaluation may throw in turn. \<open>Inr None\<close>
  is the result \<^verbatim>\<open>undefined\<close>, which \<^verbatim>\<open>JSON.stringify\<close> returns for a value it does
  not encode.
\<close>

definition stringify :: "env \<Rightarrow> state \<Rightarrow> jsval \<Rightarrow> exn + string option" where
  "stringify e st v =
     (case json_str e st [] [] v of
        Inr (seen, r) \<Rightarrow> Inr r
      | Inl err \<Rightarrow>
          (case message_of (heap st) err of
             Inl e2 \<Rightarrow> Inl e2
           | Inr m \<Rightarrow>
               (case to_string e m of
                  Inl e3 \<Rightarrow> Inl e3
                | Inr s \<Rightarrow> Inr (Some (''stringify error: '' @ s)))))"

definition getFunctionName :: "jsobj list \<Rightarrow> jsval \<Rightarrow> string" where
  "getFunctionName h fn =
     (case fn of
        JRef a \<Rightarrow>
          (case heap_get h a of
             Some (Function (Some n)) \<Rightarrow> (if n = [] then ''anonymous'' else n)
           | _ \<Rightarrow> [])
      | _ \<Rightarrow> [])"

definition isReallyNaN :: "jsval \<Rightarrow> bool" where
  "isReallyNaN v = (v = JNaN)"

definition isInfinite :: "jsval \<Rightarrow> bool" where
  "isInfinite v = (v = JPosInfinity \<or> v = JNegInfinity)"

text \<open>\<^verbatim>\<open>obj && obj.jquery\<close>, as a condition.\<close>

definition isJQuery :: "jsobj list \<Rightarrow> jsval \<Rightarrow> exn + bool" where
  "isJQuery h obj =
     (if truthy obj then
        (case get_property h obj ''jquery'' of Inl err \<Rightarrow> Inl err | Inr j \<Rightarrow> Inr (truthy j))
      else Inr False)"

definition isRegExp :: "jsobj list \<Rightarrow> jsval \<Rightarrow> bool" where
  "isRegExp h v =
     (case v of
        JRef a \<Rightarrow> (case heap_get h a of Some (RegExp s) \<Rightarrow> True | _ \<Rightarrow> False)
      | _ \<Rightarrow> False)"

definition regExp_text :: "jsobj list \<Rightarrow> jsval \<Rightarrow> string" where
  "regExp_text h v =
     (case v of
        JRef a \<Rightarrow> (case heap_get h a of Some (RegExp s) \<Rightarrow> s | _ \<Rightarrow> [])
      | _ \<Rightarrow> [])"

text \<open>The six translators the module registers when it is loaded, in that order.\<close>

definition default_translators :: "env \<Rightarrow> (string \<times> translator) list" where
  "default_translators e =
     [(''undefined'', (\<lambda>h v. Inr (v = JUndefined)), (\<lambda>h v. Inr (JStr ''undefined''))),
      (''function'', (\<lambda>h v. Inr (isFunction h v)),
         (\<lambda>h v. Inr (JStr (if getFunctionName h v \<noteq> []
                            then ''[function: '' @ getFunctionName h v @ '']''
                            else ''[function]'')))),
      (''RegExp'', (\<lambda>h v. Inr (isRegExp h v)), (\<lambda>h v. Inr (JStr (regExp_text h v)))),
      (''NaN'', (\<lambda>h v. Inr (isReallyNaN v)), (\<lambda>h v. Inr (JStr ''NaN''))),
      (''infinite'', (\<lambda>h v. Inr (isInfinite v)),
         (\<lambda>h v. Inr (JStr (if v = JPosInfinity then ''Infinity'' else ''-Infinity'')))),
      (''jQuery'', (\<lambda>h v. isJQuery h v),
         (\<lambda>h v. case jQueryToString e v of
                   Inl err \<Rightarrow> Inl err
                 | Inr s \<Rightarrow> Inr (JStr (''[jQuery: '' @ s @ '']''))))]"

subsection \<open>The error registry\<close>

definition VERSION :: string where
  "VERSION = ''0.1''"

text \<open>\<^verbatim>\<open>xs[i]\<close> on an array without holes: \<^verbatim>\<open>undefined\<close> past its end.\<close>

definition array_get :: "jsval list \<Rightarrow> nat \<Rightarrow> jsval" where
  "array_get xs i = (if i < length xs then xs ! i else JUndefined)"

definition error_message :: "jsobj \<Rightarrow> string" where
  "error_message ob = (case object_property ob ''message'' of JStr s \<Rightarrow> s | _ \<Rightarrow> [])"

definition set_message :: "jsobj \<Rightarrow> string \<Rightarrow> jsobj" where
  "set_message ob s =
     (case ob of
        Error (Some m) ps \<Rightarrow> Error (Some s) ps
      | Error None ps \<Rightarrow> Error None (set_prop ps ''message'' (JStr s))
      | Object ps \<Rightarrow> Object (set_prop ps ''message'' (JStr s))
      | _ \<Rightarrow> ob)"

text \<open>
  \<^verbatim>\<open>registerError(err)\<close>, for the error object at address \<open>a\<close>. Its only caller is a
  factory, with the \<^verbatim>\<open>Error\<close> it has just created, whose message is a string.
\<close>

definition registerError :: "nat \<Rightarrow> state \<Rightarrow> nat \<times> state" where
  "registerError a st =
     (let pos = length (errors st) in
      (pos,
       st\<lparr>heap :=
            (case heap_get (heap st) a of
               None \<Rightarrow> heap st
             | Some err \<Rightarrow>
                 (heap st)[a := set_message err (make_token (decimal pos) @ error_message err)]),
          errors := errors st @ [JRef a]\<rparr>))"

definition retrieveError :: "state \<Rightarrow> string \<Rightarrow> jsval" where
  "retrieveError st msg =
     (case regexp_match msg of
        Some (b, ds, t) \<Rightarrow>
          (if length (errors st) \<le> parseInt ds then array_get (errors st) (parseInt ds)
           else JNull)
      | None \<Rightarrow> JNull)"

text \<open>
  \<^verbatim>\<open>$.extend(target, src)\<close>: every enumerable property of the source whose value is not
  \<^verbatim>\<open>undefined\<close> is assigned to the target, which is the object returned.
\<close>

fun extend_props :: "props \<Rightarrow> props \<Rightarrow> props" where
  "extend_props target [] = target"
| "extend_props target ((k, v) # ps) =
     extend_props (if v = JUndefined then target else set_prop target k v) ps"

text \<open>
  The enumerable properties of \<^verbatim>\<open>v || {}\<close> as a source of \<^verbatim>\<open>$.extend\<close>; those of a
  string are its characters.
\<close>

definition extend_source :: "jsobj list \<Rightarrow> jsval \<Rightarrow> props" where
  "extend_source h v =
     (if truthy v then
        (case v of
           JRef a \<Rightarrow> (case heap_get h a of Some ob \<Rightarrow> enumerable_props ob | None \<Rightarrow> [])
         | JStr s \<Rightarrow> zip (map decimal [0..<length s]) (map (\<lambda>c. JStr [c]) s)
         | _ \<Rightarrow> [])
      else [])"

text \<open>
  The closure \<^verbatim>\<open>factory\<close> that \<^verbatim>\<open>errorFactory(type, options)\<close> creates, called as
  \<^verbatim>\<open>factory(msg, opts)\<close>; \<open>msg = None\<close> is an undefined message. \<^verbatim>\<open>$.extend\<close> is called
  with the closure's own \<^verbatim>\<open>factoryOptions\<close> as its target. The body has no
  \<^verbatim>\<open>return\<close> statement. Calling the factory of a type that has none is calling
  \<^verbatim>\<open>undefined\<close>.
\<close>

definition factory_call ::
  "env \<Rightarrow> string \<Rightarrow> string option \<Rightarrow> jsval \<Rightarrow> state \<Rightarrow> (exn + jsval) \<times> state" where
  "factory_call e type msg opts st =
     (case errorFactories st type of
        None \<Rightarrow> (Inl (TypeError ''undefined is not a function''), st)
      | Some factoryOptions \<Rightarrow>
          (let merged = extend_props factoryOptions (extend_source (heap st) opts);
               st1 = st\<lparr>errorFactories := (errorFactories st)(type \<mapsto> merged)\<rparr>;
               err = Error msg
                 ([(''type'', JStr type), (''oopsie'', JStr VERSION)] @
                  (case printStackTrace e of
                     None \<Rightarrow> []
                   | Some frames \<Rightarrow> [(''stackTrace'', JStr (join [CHR 0x0A] frames))]));
               a = length (heap st1);
               st2 = st1\<lparr>heap := heap st1 @ [err]\<rparr>
           in (Inr JUndefined, snd (registerError a st2))))"

text \<open>
  The names \<^verbatim>\<open>errorFactories[type]\<close> finds although no factory is registered under
  them: \<^verbatim>\<open>errorFactories\<close> is created as \<^verbatim>\<open>{}\<close> and inherits them.
\<close>

definition object_prototype_members :: "string list" where
  "object_prototype_members =
     [''constructor'', ''toString'', ''toLocaleString'', ''valueOf'', ''hasOwnProperty'',
      ''isPrototypeOf'', ''propertyIsEnumerable'', ''__proto__'', ''__defineGetter__'',
      ''__defineSetter__'', ''__lookupGetter__'', ''__lookupSetter__'']"

definition makeError ::
  "env \<Rightarrow> string \<Rightarrow> string option \<Rightarrow> jsval \<Rightarrow> state \<Rightarrow> (exn + jsval) \<times> state" where
  "makeError e type msg opts st =
     (case errorFactories st type of
        Some factoryOptions \<Rightarrow> factory_call e type msg opts st
      | None \<Rightarrow>
          (if type \<in> set object_prototype_members then (callInherited e type, st)
           else factory_call e ''oopsieError''
                  (Some (''[oopsie.makeError] unknown error type'' @ [CHR 0x0A] @
                         ''type = '' @ [CHR 0x22] @ type @ [CHR 0x22] @ [CHR 0x0A] @
                         (case msg of None \<Rightarrow> ''undefined'' | Some m \<Rightarrow> m)))
                  opts st))"

subsection \<open>Assertions and registration\<close>

fun stringify_all :: "env \<Rightarrow> state \<Rightarrow> jsval list \<Rightarrow> exn + string list" where
  "stringify_all e st [] = Inr []"
| "stringify_all e st (v # vs) =
     (case stringify e st v of
        Inl err \<Rightarrow> Inl err
      | Inr r \<Rightarrow>
          (case stringify_all e st vs of
             Inl err \<Rightarrow> Inl err
           | Inr rs \<Rightarrow> Inr ((case r of None \<Rightarrow> [] | Some s \<Rightarrow> s) # rs)))"

text \<open>
  The body of \<^verbatim>\<open>assert\<close> once the condition is false. It ends in
  \<^verbatim>\<open>throw makeError('assertionError', msg)\<close>, so it always throws: the value
  \<^verbatim>\<open>makeError\<close> returns, or what \<^verbatim>\<open>makeError\<close> or \<^verbatim>\<open>stringify\<close> throw.
\<close>

definition assert_failure :: "env \<Rightarrow> jsval list \<Rightarrow> state \<Rightarrow> exn \<times> state" where
  "assert_failure e msgArgs st =
     (case stringify_all e st msgArgs of
        Inl err \<Rightarrow> (err, st)
      | Inr parts \<Rightarrow>
          (let msg = join [CHR 0x0A] parts;
               st1 = (if alertOnAssertFailure st then st\<lparr>events := events st @ [Alert msg]\<rparr>
                      else st);
               st2 = (if debugOnAssertFailure st1 then st1\<lparr>events := events st1 @ [Debugger]\<rparr>
                      else st1)
           in (case makeError e ''assertionError'' (Some msg) JUndefined st2 of
                 (Inl err, st3) \<Rightarrow> (err, st3)
               | (Inr v, st3) \<Rightarrow> (Thrown v, st3))))"

definition assert :: "env \<Rightarrow> bool \<Rightarrow> jsval list \<Rightarrow> state \<Rightarrow> (exn + unit) \<times> state" where
  "assert e b msgArgs st =
     (if b then (Inr (), st)
      else (case assert_failure e msgArgs st of (err, st1) \<Rightarrow> (Inl err, st1)))"

text \<open>
  \<^verbatim>\<open>errorFactory(type, options)\<close>. The factory it returns is \<open>factory_call\<close> at this
  type.
\<close>

definition errorFactory :: "env \<Rightarrow> string \<Rightarrow> jsval \<Rightarrow> state \<Rightarrow> (exn + unit) \<times> state" where
  "errorFactory e type options st =
     (case assert e (errorFactories st type = None)
             [JStr ''error factory already exists'', JStr type, options] st of
        (Inl err, st1) \<Rightarrow> (Inl err, st1)
      | (Inr u, st1) \<Rightarrow>
          (Inr (),
           st1\<lparr>errorFactories := (errorFactories st1)
                  (type \<mapsto> extend_props [(''reportImmediately'', JBool False)]
                               (extend_source (heap st1) options))\<rparr>))"

text \<open>
  \<^verbatim>\<open>translators[name] = [evaluator, translator]\<close>, on the translators in the order of
  their first registration: a name in use keeps its place, a new name is created last.
  The order in which the translators are tried is \<open>enumeration_order\<close> of this list.
\<close>

fun set_translator ::
  "(string \<times> translator) list \<Rightarrow> string \<Rightarrow> translator \<Rightarrow> (string \<times> translator) list" where
  "set_translator [] k t = [(k, t)]"
| "set_translator ((k', t') # ts) k t =
     (if k' = k then (k, t) # ts else (k', t') # set_translator ts k t)"

text \<open>
  \<^verbatim>\<open>addTranslator(name, evaluator, translator)\<close>; an argument that is not a function is
  \<open>None\<close>.
\<close>

definition addTranslator ::
  "env \<Rightarrow> string \<Rightarrow> (jsobj list \<Rightarrow> jsval \<Rightarrow> exn + bool) option \<Rightarrow>
   (jsobj list \<Rightarrow> jsval \<Rightarrow> exn + jsval) option \<Rightarrow> state \<Rightarrow> (exn + unit) \<times> state" where
  "addTranslator e name evaluator translator st =
     (case assert e (name \<noteq> [] \<and> evaluator \<noteq> None \<and> translator \<noteq> None)
             [JStr ''[oopsie.addTranslator] requires a name, an evaluator function and a translator function'']
             st of
        (Inl err, st1) \<Rightarrow> (Inl err, st1)
      | (Inr u, st1) \<Rightarrow>
          (case (evaluator, translator) of
             (Some ev, Some tr) \<Rightarrow>
               (Inr (), st1\<lparr>translators := set_translator (translators st1) name (ev, tr)\<rparr>)
           | _ \<Rightarrow> (Inr (), st1)))"

text \<open>The state once the module is loaded.\<close>

definition init_state :: "env \<Rightarrow> state" where
  "init_state e =
     \<lparr>heap = [], errors = [],
      errorFactories =
        [''assertionError'' \<mapsto> [(''reportImmediately'', JBool False)],
         ''javascriptError'' \<mapsto> [(''reportImmediately'', JBool False)],
         ''oopsieError'' \<mapsto> [(''reportImmediately'', JBool False)]],
      translators = default_translators e,
      reportHandlers = Map.empty,
      report = ReportNamespace False,
      alertOnAssertFailure = False,
      debugOnAssertFailure = False,
      events = []\<rparr>"

subsection \<open>The reporting pipeline\<close>

text \<open>The state of a \<^verbatim>\<open>$.Deferred\<close>: settled at most once, by the first resolve or reject.\<close>

datatype deferred = Pending | Resolved "jsval list" | Rejected "jsval list"

text \<open>
  The object passed to \<^verbatim>\<open>addHandler\<close>: a member is \<open>None\<close> when the object does not
  have it or holds \<^verbatim>\<open>undefined\<close> there.
\<close>

record handler_fields =
  given_before :: "before_hook option"
  given_after :: "after_hook option"

definition defaultHandler :: handler where
  "defaultHandler = \<lparr>before = Before [Resolve []], after = Noop\<rparr>"

text \<open>\<^verbatim>\<open>$.extend({}, defaultHandler, o || {})\<close>.\<close>

definition extend_handler :: "handler \<Rightarrow> handler_fields \<Rightarrow> handler" where
  "extend_handler d o' =
     \<lparr>before = (case given_before o' of None \<Rightarrow> before d | Some b \<Rightarrow> b),
      after = (case given_after o' of None \<Rightarrow> after d | Some a \<Rightarrow> a)\<rparr>"

definition addHandler :: "string \<Rightarrow> handler_fields \<Rightarrow> state \<Rightarrow> state" where
  "addHandler name o' st =
     st\<lparr>reportHandlers := (reportHandlers st)(name \<mapsto> extend_handler defaultHandler o')\<rparr>"

text \<open>
  The \<^verbatim>\<open>try\<close>/\<^verbatim>\<open>catch\<close>/\<^verbatim>\<open>finally\<close> at the head of \<^verbatim>\<open>reportError\<close>: the handler
  stored for \<^verbatim>\<open>err.type\<close>, extended over the default handler; the default handler when
  there is none or when the lookup throws. A stored handler has both members, so extending
  it changes nothing.
\<close>

definition lookup_handler :: "env \<Rightarrow> state \<Rightarrow> jsval \<Rightarrow> handler" where
  "lookup_handler e st err =
     (case get_property (heap st) err ''type'' of
        Inl x \<Rightarrow> defaultHandler
      | Inr t \<Rightarrow>
          (case to_string e t of
             Inl x \<Rightarrow> defaultHandler
           | Inr k \<Rightarrow> (case reportHandlers st k of None \<Rightarrow> defaultHandler | Some h \<Rightarrow> h)))"

text \<open>
  The callback given to \<^verbatim>\<open>defer.done\<close>. It calls \<^verbatim>\<open>oopsie.report.apply\<close>: on the
  namespace object this is a call of \<^verbatim>\<open>undefined\<close>, whatever its \<^verbatim>\<open>reporter\<close> member
  holds. The result is the exception the callback ends with, if any.
\<close>

definition done_callback :: "jsval \<Rightarrow> handler \<Rightarrow> jsval list \<Rightarrow> state \<Rightarrow> exn option \<times> state" where
  "done_callback err h extraArgs st =
     (case report st of
        ReportNamespace r \<Rightarrow> (Some (TypeError ''oopsie.report.apply is not a function''), st)
      | ReportFunction \<Rightarrow>
          (let st1 = st\<lparr>events := events st @ [ReporterInvoked (err # extraArgs)]\<rparr>
           in (case after h of
                 AfterNotCallable \<Rightarrow> (None, st1)
               | a \<Rightarrow> (None, st1\<lparr>events := events st1 @ [AfterInvoked a]\<rparr>))))"

text \<open>
  One call of \<^verbatim>\<open>resolve\<close> or \<^verbatim>\<open>reject\<close> on the deferred object whose only callback is
  \<open>cb\<close>, registered with \<^verbatim>\<open>done\<close>: a pending object is settled, and resolving runs the
  callback; a settled object ignores the call.
\<close>

fun gate_step ::
  "(jsval list \<Rightarrow> state \<Rightarrow> exn option \<times> state) \<Rightarrow> deferred \<times> exn option \<times> state \<Rightarrow> gate_action
   \<Rightarrow> deferred \<times> exn option \<times> state" where
  "gate_step cb (Pending, x, st) (Resolve args) =
     (case cb args st of (x1, st1) \<Rightarrow> (Resolved args, x1, st1))"
| "gate_step cb (Pending, x, st) (Reject args) = (Rejected args, x, st)"
| "gate_step cb (d, x, st) a = (d, x, st)"

definition run_gate ::
  "(jsval list \<Rightarrow> state \<Rightarrow> exn option \<times> state) \<Rightarrow> gate_action list \<Rightarrow> state
   \<Rightarrow> deferred \<times> exn option \<times> state" where
  "run_gate cb actions st = foldl (gate_step cb) (Pending, None, st) actions"

text \<open>
  \<^verbatim>\<open>reportError(err)\<close>, followed until the \<^verbatim>\<open>before\<close> hook has done all it does to the
  deferred object: the final state of that object, the exception raised by the callback,
  and the state.
\<close>

definition reportError :: "env \<Rightarrow> jsval \<Rightarrow> state \<Rightarrow> deferred \<times> exn option \<times> state" where
  "reportError e err st =
     (let h = lookup_handler e st err in
      (case before h of
         Before actions \<Rightarrow> run_gate (done_callback err h) actions st
       | BeforeNotCallable \<Rightarrow> run_gate (done_callback err h) [Resolve []] st))"

subsection \<open>The audit wrapper\<close>

text \<open>
  A function of the program: from \<^verbatim>\<open>this\<close>, the arguments and the state to a returned
  or thrown value and the new state.
\<close>

type_synonym js_function = "jsval \<Rightarrow> jsval list \<Rightarrow> state \<Rightarrow> (exn + jsval) \<times> state"

definition exn_typeof_object :: "jsobj list \<Rightarrow> exn \<Rightarrow> bool" where
  "exn_typeof_object h err = (case err of Thrown v \<Rightarrow> typeof_object h v | _ \<Rightarrow> True)"

text \<open>An element of an array under \<^verbatim>\<open>join\<close>: \<^verbatim>\<open>undefined\<close> and \<^verbatim>\<open>null\<close> give no text.\<close>

definition join_element :: "env \<Rightarrow> jsval \<Rightarrow> exn + string" where
  "join_element e v = (case v of JUndefined \<Rightarrow> Inr [] | JNull \<Rightarrow> Inr [] | _ \<Rightarrow> to_string e v)"

text \<open>
  Step 1 of the inner \<^verbatim>\<open>try\<close> block: a thrown value that is not of type
  \<^verbatim>\<open>'object'\<close> is replaced by what \<^verbatim>\<open>makeError('oopsieError', msg)\<close> returns, called
  while \<^verbatim>\<open>msg\<close> is still undefined. The left summand is an exception raised by the step.
\<close>

definition normalize :: "env \<Rightarrow> exn \<Rightarrow> state \<Rightarrow> (exn + exn) \<times> state" where
  "normalize e err st =
     (if exn_typeof_object (heap st) err then (Inr err, st)
      else (case makeError e ''oopsieError'' None JUndefined st of
              (Inl x, st1) \<Rightarrow> (Inl x, st1)
            | (Inr v, st1) \<Rightarrow> (Inr (Thrown v), st1)))"

text \<open>
  The assignment \<^verbatim>\<open>newError.message = g\<close>, in strict mode: a TypeError on a value that
  is not an object, else the object after the assignment and the state. An error object
  of the engine is given by its message and so changes as a value. The store has no place
  for a member added to an array, a regular expression, a function or an object whose
  \<^verbatim>\<open>toJSON\<close> throws; this store leaves those as they are.
\<close>

definition assign_message :: "string \<Rightarrow> exn \<Rightarrow> state \<Rightarrow> exn + (exn \<times> state)" where
  "assign_message g newError st =
     (case newError of
        TypeError m \<Rightarrow> Inr (TypeError g, st)
      | ReferenceError m \<Rightarrow> Inr (ReferenceError g, st)
      | Thrown (JRef a) \<Rightarrow>
          (case heap_get (heap st) a of
             None \<Rightarrow> Inr (newError, st)
           | Some ob \<Rightarrow> Inr (newError, st\<lparr>heap := (heap st)[a := set_message ob g]\<rparr>))
      | Thrown v \<Rightarrow> Inl (TypeError ''cannot create a property on a value that is not an object''))"

text \<open>
  How the inner \<^verbatim>\<open>try\<close> block ends. \<open>Failed x\<close>: one of its steps raised \<open>x\<close>.
  \<open>Completed v\<close>: every step was carried out and the block reached its last statement,
  \<^verbatim>\<open>throw newError\<close>, with \<open>v\<close> the thrown object after the assignment to its message.
  Either way control passes to the \<^verbatim>\<open>catch\<close> clause of the block.
\<close>

datatype attempt = Failed exn | Completed exn

text \<open>
  The inner \<^verbatim>\<open>try\<close> block of the wrapper. The array of the augmented message is built
  (reading \<^verbatim>\<open>newError.message\<close>, calling \<^verbatim>\<open>stringify(arguments)\<close> and
  \<^verbatim>\<open>context.toString()\<close>, joining) and stored in \<^verbatim>\<open>msg\<close>. The statement after it is
  \<^verbatim>\<open>newError.message = message\<close>: its right-hand side is not \<^verbatim>\<open>msg\<close> but the
  identifier \<^verbatim>\<open>message\<close>, the host's global variable. Where the host defines none,
  evaluating it is a ReferenceError; where it does, its value becomes the message.
\<close>

definition augment ::
  "env \<Rightarrow> string \<Rightarrow> jsval \<Rightarrow> jsval \<Rightarrow> exn \<Rightarrow> state \<Rightarrow> attempt \<times> state" where
  "augment e name ctx arguments err st =
     (case normalize e err st of
        (Inl x, st1) \<Rightarrow> (Failed x, st1)
      | (Inr newError, st1) \<Rightarrow>
          (case message_of (heap st1) newError of
             Inl x \<Rightarrow> (Failed x, st1)
           | Inr m \<Rightarrow>
               (case stringify e st1 arguments of
                  Inl x \<Rightarrow> (Failed x, st1)
                | Inr s \<Rightarrow>
                    (case to_string e ctx of
                       Inl x \<Rightarrow> (Failed x, st1)
                     | Inr t \<Rightarrow>
                         (case join_element e m of
                            Inl x \<Rightarrow> (Failed x, st1)
                          | Inr mt \<Rightarrow>
                              (let msg = join [CHR 0x0A]
                                     [mt, ''['' @ name @ '']'', ''Arguments:'',
                                      (case s of None \<Rightarrow> [] | Some js \<Rightarrow> js), ''toString:'', t]
                               in (case globalMessage e of
                                     None \<Rightarrow>
                                       (Failed (ReferenceError ''message is not defined''), st1)
                                   | Some g \<Rightarrow>
                                       (case assign_message g newError st1 of
                                          Inl x \<Rightarrow> (Failed x, st1)
                                        | Inr (changed, st2) \<Rightarrow> (Completed changed, st2)))))))))"

text \<open>The state in which the wrapped function runs: the \<^verbatim>\<open>arguments\<close> object exists.\<close>

definition enter_call :: "jsval list \<Rightarrow> state \<Rightarrow> state" where
  "enter_call args st =
     st\<lparr>heap := heap st @ [Object (zip (map decimal [0..<length args]) args)]\<rparr>"

text \<open>
  The function that \<^verbatim>\<open>audit(name, fn, context)\<close> returns, called with \<open>args\<close>; \<open>ctx\<close>
  is the value of \<^verbatim>\<open>context || {}\<close>. The \<^verbatim>\<open>catch\<close> clause of the inner \<^verbatim>\<open>try\<close> is
  \<^verbatim>\<open>throw err\<close>, and it also catches the block's own \<^verbatim>\<open>throw newError\<close>. Where
  \<^verbatim>\<open>err\<close> is an object, \<^verbatim>\<open>newError\<close> is the same object, so after a completed block
  \<^verbatim>\<open>err\<close> is that object with its message assigned.
\<close>

definition audited ::
  "env \<Rightarrow> string \<Rightarrow> js_function \<Rightarrow> jsval \<Rightarrow> jsval list \<Rightarrow> state \<Rightarrow> (exn + jsval) \<times> state" where
  "audited e name fn ctx args st =
     (case fn ctx args (enter_call args st) of
        (Inr r, st1) \<Rightarrow> (Inr r, st1)
      | (Inl err, st1) \<Rightarrow>
          (case augment e name ctx (JRef (length (heap st))) err st1 of
             (Failed x, st2) \<Rightarrow> (Inl err, st2)
           | (Completed changed, st2) \<Rightarrow>
               (Inl (if exn_typeof_object (heap st1) err then changed else err), st2)))"

definition audit ::
  "env \<Rightarrow> string \<Rightarrow> js_function \<Rightarrow> jsval \<Rightarrow> state
   \<Rightarrow> (jsval list \<Rightarrow> state \<Rightarrow> (exn + jsval) \<times> state) \<times> state" where
  "audit e name fn ctx st =
     (if truthy ctx then (audited e name fn ctx, st)
      else (audited e name fn (JRef (length (heap st))), st\<lparr>heap := heap st @ [Object []]\<rparr>))"

text \<open>
  A classified record, as a thrown value: an error object that a factory has created,
  which carries the library's version in its \<^verbatim>\<open>oopsie\<close> member.
\<close>

definition classified_record :: "jsobj list \<Rightarrow> exn \<Rightarrow> bool" where
  "classified_record h err =
     (case err of
        Thrown (JRef a) \<Rightarrow>
          (case heap_get h a of
             Some (Error m ps) \<Rightarrow> truthy (lookup_prop ps ''oopsie'')
           | _ \<Rightarrow> False)
      | _ \<Rightarrow> False)"

subsection \<open>Loading the module\<close>

definition empty_state :: state where
  "empty_state =
     \<lparr>heap = [], errors = [], errorFactories = Map.empty, translators = [],
      reportHandlers = Map.empty, report = ReportNamespace False,
      alertOnAssertFailure = False, debugOnAssertFailure = False, events = []\<rparr>"

text \<open>
  The calls the module makes while it is loaded: \<^verbatim>\<open>addTranslator\<close> for each default
  translator (lines 308 to 320), then \<^verbatim>\<open>errorFactory\<close> for the three built-in types
  (lines 655 to 657).
\<close>

definition load_module :: "env \<Rightarrow> state" where
  "load_module e =
     snd (errorFactory e ''oopsieError'' JUndefined
       (snd (errorFactory e ''javascriptError'' JUndefined
         (snd (errorFactory e ''assertionError'' JUndefined
           (foldl (\<lambda>st (name, evaluator, translator).
                     snd (addTranslator e name (Some evaluator) (Some translator) st))
              empty_state (default_translators e)))))))"

subsection \<open>Inputs on which stringify cannot fail\<close>

text \<open>A store without an object whose \<^verbatim>\<open>toJSON\<close> method throws.\<close>

definition data_store :: "jsobj list \<Rightarrow> bool" where
  "data_store h = list_all (\<lambda>ob. case ob of ThrowingToJSON x \<Rightarrow> False | _ \<Rightarrow> True) h"

text \<open>An error object created by the engine: its \<^verbatim>\<open>message\<close> is a string.\<close>

definition engine_error :: "exn \<Rightarrow> bool" where
  "engine_error x = (case x of Thrown v \<Rightarrow> False | _ \<Rightarrow> True)"

text \<open>A host whose serialization of jQuery objects fails with engine errors only.\<close>

definition tame_env :: "env \<Rightarrow> bool" where
  "tame_env e = (\<forall>v x. jQueryToString e v = Inl x \<longrightarrow> engine_error x)"

text \<open>A value that \<^verbatim>\<open>JSON.stringify\<close> encodes: neither \<^verbatim>\<open>undefined\<close> nor a function.\<close>

definition encodable :: "jsobj list \<Rightarrow> jsval \<Rightarrow> bool" where
  "encodable h v =
     (case v of
        JUndefined \<Rightarrow> False
      | JRef a \<Rightarrow> (case heap_get h a of Some (Function n) \<Rightarrow> False | _ \<Rightarrow> True)
      | _ \<Rightarrow> True)"

text \<open>A value that is not a reference to an object outside the store.\<close>

definition valid_ref :: "jsobj list \<Rightarrow> jsval \<Rightarrow> bool" where
  "valid_ref h v = (case v of JRef a \<Rightarrow> a < length h | _ \<Rightarrow> True)"

subsection \<open>Concrete hosts and scenarios\<close>

text \<open>
  A host without stack capture and without a global variable \<^verbatim>\<open>message\<close>, whose
  objects print as \<^verbatim>\<open>[object Object]\<close>. No scenario below holds a number for which
  \<open>exponentText\<close> is consulted.
\<close>

definition plain_env :: env where
  "plain_env =
     \<lparr>printStackTrace = None,
      objectToString = (\<lambda>a. Inr ''[object Object]''),
      jQueryToString = (\<lambda>v. Inr []),
      callInherited = (\<lambda>n. Inl (TypeError ''not a function'')),
      globalMessage = None,
      exponentText = (\<lambda>i. ''1e+21'')\<rparr>"

text \<open>
  The same host on a page that defines a global variable \<^verbatim>\<open>message\<close> holding
  \<^verbatim>\<open>'GLOBAL'\<close>.
\<close>

definition message_env :: env where
  "message_env = plain_env\<lparr>globalMessage := Some ''GLOBAL''\<rparr>"

text \<open>A function that throws the object at address 0.\<close>

definition throws_first_object :: js_function where
  "throws_first_object this args st = (Inl (Thrown (JRef 0)), st)"

text \<open>\<^verbatim>\<open>function () { throw 'boom'; }\<close>\<close>

definition throws_boom :: js_function where
  "throws_boom this args st = (Inl (Thrown (JStr ''boom'')), st)"

text \<open>
  The state after \<^verbatim>\<open>var f = errorFactory('networkError', {})\<close>, with the options object
  at address 0, and the state after \<^verbatim>\<open>f('timeout')\<close> in it.
\<close>

definition network_registered :: state where
  "network_registered =
     snd (errorFactory plain_env ''networkError'' (JRef 0)
            ((init_state plain_env)\<lparr>heap := [Object []]\<rparr>))"

definition network_timeout :: state where
  "network_timeout =
     snd (factory_call plain_env ''networkError'' (Some ''timeout'') JUndefined network_registered)"

text \<open>
  A host that has stored its reporter function in \<^verbatim>\<open>oopsie.report.reporter\<close>, with one
  registered error at address 0.
\<close>

definition reporter_supplied :: state where
  "reporter_supplied =
     (snd (factory_call plain_env ''oopsieError'' (Some ''down'') JUndefined (init_state plain_env)))
       \<lparr>report := ReportNamespace True\<rparr>"

text \<open>
  A host that has replaced \<^verbatim>\<open>oopsie.report\<close> by its reporter function and has added a
  handler for \<^verbatim>\<open>oopsieError\<close> whose \<^verbatim>\<open>before\<close> hook rejects the deferred object.
\<close>

definition rejecting_host :: state where
  "rejecting_host =
     addHandler ''oopsieError'' \<lparr>given_before = Some (Before [Reject []]), given_after = Some (After 1)\<rparr>
       ((snd (factory_call plain_env ''oopsieError'' (Some ''down'') JUndefined (init_state plain_env)))
          \<lparr>report := ReportFunction\<rparr>)"

section \<open>Properties\<close>

text \<open>The definitions that evaluating a call on concrete arguments unfolds.\<close>

lemmas eval_defs =
  stringify_def json_str.simps toJSON_throws_def circularRefSafeTranslate_def
  init_state_def default_translators_def typeof_object_def heap_get_def isFunction_def
  isRegExp_def isReallyNaN_def isInfinite_def isJQuery_def get_property_def object_property_def
  enumerable_props_def quote_def quote_char_def decimal.simps message_of_def to_string_def
  translation_error_def plain_env_def factory_call_def makeError_def registerError_def
  retrieveError_def extend_source_def VERSION_def set_message_def error_message_def
  make_token_def match_here_def is_digit_def parseInt_def digit_value_def array_get_def
  object_prototype_members_def assert_def assert_failure_def errorFactory_def addTranslator_def
  audit_def audited_def augment_def normalize_def assign_message_def exn_typeof_object_def
  join_element_def enter_call_def enumeration_order_def is_index_def number_text_def
  message_env_def throws_first_object_def
  reportError_def run_gate_def done_callback_def lookup_handler_def defaultHandler_def
  extend_handler_def addHandler_def classified_record_def throws_boom_def Let_def

subsection \<open>The state after loading\<close>

text \<open>\<open>init_state\<close> is the state the module's own calls produce from the empty one.\<close>

lemma load_module_init: "load_module e = init_state e"
  by (simp add: load_module_def empty_state_def init_state_def default_translators_def
      addTranslator_def assert_def errorFactory_def extend_source_def)

text \<open>
  Members named by array indices come first, in numeric order: a translator registered
  last under the name \<^verbatim>\<open>7\<close> is tried first, and \<^verbatim>\<open>10\<close> follows \<^verbatim>\<open>9\<close>.
\<close>

lemma enumeration_order_indices_first:
  "enumeration_order [(''undefined'', a), (''10'', b), (''x'', c), (''9'', d), (''07'', f)]
     = [(''9'', d), (''10'', b), (''undefined'', a), (''x'', c), (''07'', f)]"
  by (simp add: enumeration_order_def is_index_def is_digit_def parseInt_def digit_value_def)

subsection \<open>The identifier token: matching and removal\<close>

lemma strip_prefix_Some: "strip_prefix p s = Some t \<longleftrightarrow> s = p @ t"
  by (induction p s rule: strip_prefix.induct) auto

lemma not_digit_underscore: "\<not> is_digit CHR ''_''"
  by (simp add: is_digit_def)

lemma match_here_Some:
  assumes "match_here s = Some (ds, t)"
  shows "s = make_token ds @ t \<and> ds \<noteq> [] \<and> list_all is_digit ds"
proof -
  obtain r where r: "s = ''__oopsieID_'' @ r" "takeWhile is_digit r \<noteq> []"
      "dropWhile is_digit r = ''__'' @ t" "ds = takeWhile is_digit r"
    using assms
    by (auto simp: match_here_def strip_prefix_Some split: option.splits if_splits)
  have "r = ds @ ''__'' @ t"
    using r(3,4) takeWhile_dropWhile_id [of is_digit r] by simp
  moreover have "list_all is_digit ds"
    using r(4) by (auto simp: list_all_iff dest: set_takeWhileD)
  ultimately show ?thesis
    using r(1,2,4) by (simp add: make_token_def)
qed

lemma match_here_token:
  assumes "ds \<noteq> []" and "list_all is_digit ds"
  shows "match_here (make_token ds @ t) = Some (ds, t)"
proof -
  have tw: "takeWhile is_digit (ds @ ''__'' @ t) = ds"
    using assms by (simp add: takeWhile_append2 list_all_iff not_digit_underscore)
  have dw: "dropWhile is_digit (ds @ ''__'' @ t) = ''__'' @ t"
    using assms by (simp add: dropWhile_append2 list_all_iff not_digit_underscore)
  have "strip_prefix ''__oopsieID_'' (make_token ds @ t) = Some (ds @ ''__'' @ t)"
    unfolding make_token_def by (simp add: strip_prefix_Some)
  then show ?thesis
    using tw dw assms(1) unfolding match_here_def by (simp add: strip_prefix_Some)
qed

text \<open>A match splits the text into what precedes the token, the token and the rest.\<close>

lemma regexp_match_Some:
  "regexp_match s = Some (b, ds, t) \<Longrightarrow>
     s = b @ make_token ds @ t \<and> ds \<noteq> [] \<and> list_all is_digit ds"
proof (induction s arbitrary: b)
  case Nil
  then show ?case by simp
next
  case (Cons c cs)
  show ?case
  proof (cases "match_here (c # cs)")
    case (Some p)
    then show ?thesis
      using Cons.prems match_here_Some [of "c # cs" ds t] by (cases p) auto
  next
    case None
    then obtain b' where "regexp_match cs = Some (b', ds, t)" "b = c # b'"
      using Cons.prems by (auto split: option.splits)
    then show ?thesis using Cons.IH [of b'] by simp
  qed
qed

text \<open>
  The first occurrence of the matched text is the match itself, so the replacement in
  \<open>filterOutOopsieId\<close> removes exactly the leftmost token.
\<close>

lemma replace_first_match:
  "regexp_match s = Some (b, ds, t) \<Longrightarrow> replace_first (make_token ds) [] s = b @ t"
proof (induction s arbitrary: b)
  case Nil
  then show ?case by simp
next
  case (Cons c cs)
  show ?case
  proof (cases "match_here (c # cs)")
    case (Some p)
    then have eq: "b = []" "match_here (c # cs) = Some (ds, t)"
      using Cons.prems by (cases p; auto)+
    then have "c # cs = make_token ds @ t" using match_here_Some by blast
    then have "strip_prefix (make_token ds) (c # cs) = Some t" by (simp add: strip_prefix_Some)
    then show ?thesis using eq by simp
  next
    case None
    then obtain b' where b': "regexp_match cs = Some (b', ds, t)" "b = c # b'"
      using Cons.prems by (auto split: option.splits)
    then have dig: "ds \<noteq> []" "list_all is_digit ds" using regexp_match_Some by blast+
    have "strip_prefix (make_token ds) (c # cs) = None"
    proof (cases "strip_prefix (make_token ds) (c # cs)")
      case (Some u)
      then have "c # cs = make_token ds @ u" by (simp add: strip_prefix_Some)
      then have "match_here (c # cs) = Some (ds, u)" using match_here_token [OF dig] by simp
      then show ?thesis using None by simp
    qed simp
    then show ?thesis using b' Cons.IH [of b'] by simp
  qed
qed

lemma filterOutOopsieId_match:
  "regexp_match s = Some (b, ds, t) \<Longrightarrow> filterOutOopsieId s = b @ t"
  by (simp add: filterOutOopsieId_def replace_first_match)

lemma filterOutOopsieId_shorter:
  assumes "regexp_match s \<noteq> None"
  shows "length (filterOutOopsieId s) < length s"
proof -
  obtain b ds t where m: "regexp_match s = Some (b, ds, t)"
    using assms by auto
  then have "s = b @ make_token ds @ t" using regexp_match_Some by blast
  moreover have "filterOutOopsieId s = b @ t" using m by (rule filterOutOopsieId_match)
  ultimately show ?thesis by (simp add: make_token_def)
qed

text \<open>
  Claim C10, as stated: \<^verbatim>\<open>stripToken\<close> (\<open>filterOutOopsieId\<close>) is idempotent for every
  input text. It is not: only the leftmost token is removed, so a text with two tokens
  loses one of them at each application.
\<close>

theorem filterOutOopsieId_not_idempotent:
  "filterOutOopsieId (filterOutOopsieId ''__oopsieID_1____oopsieID_2__x'')
     \<noteq> filterOutOopsieId ''__oopsieID_1____oopsieID_2__x''"
  by (simp add: filterOutOopsieId_def match_here_def is_digit_def make_token_def)

text \<open>The match found is the leftmost token of the text, and a text with a token has a match.\<close>

lemma regexp_match_leftmost:
  "regexp_match s = Some (b, ds, t) \<Longrightarrow> s = b' @ make_token ds' @ t' \<Longrightarrow> ds' \<noteq> [] \<Longrightarrow>
     list_all is_digit ds' \<Longrightarrow> length b \<le> length b'"
proof (induction s arbitrary: b b')
  case Nil
  then show ?case by simp
next
  case (Cons c cs)
  show ?case
  proof (cases "match_here (c # cs)")
    case (Some p)
    then have "b = []" using Cons.prems(1) by (cases p) auto
    then show ?thesis by simp
  next
    case None
    then obtain b0 where b0: "regexp_match cs = Some (b0, ds, t)" "b = c # b0"
      using Cons.prems(1) by (auto split: option.splits)
    have "b' \<noteq> []"
    proof
      assume "b' = []"
      then have "match_here (c # cs) = Some (ds', t')"
        using Cons.prems(2) match_here_token [OF Cons.prems(3,4), of t'] by simp
      then show False using None by simp
    qed
    then obtain b1 where b1: "b' = c # b1" "cs = b1 @ make_token ds' @ t'"
      using Cons.prems(2) by (cases b') auto
    have "length b0 \<le> length b1"
      using Cons.IH [OF b0(1) b1(2) Cons.prems(3,4)] .
    then show ?thesis using b0(2) b1(1) by simp
  qed
qed

lemma regexp_match_token:
  assumes "ds \<noteq> []" and "list_all is_digit ds"
  shows "regexp_match (b @ make_token ds @ t) \<noteq> None"
proof (induction b)
  case Nil
  obtain c cs where c: "make_token ds @ t = c # cs"
    by (cases "make_token ds @ t") (simp_all add: make_token_def)
  have "match_here (c # cs) = Some (ds, t)"
    using match_here_token [OF assms, of t] c by simp
  then show ?case using c by simp
next
  case (Cons a b)
  then show ?case by (auto split: option.splits)
qed

lemma contains_token_iff: "contains_token x \<longleftrightarrow> regexp_match x \<noteq> None"
proof
  assume "contains_token x"
  then show "regexp_match x \<noteq> None"
    using regexp_match_token by (auto simp: contains_token_def)
next
  assume "regexp_match x \<noteq> None"
  then obtain b ds t where "regexp_match x = Some (b, ds, t)" by auto
  then show "contains_token x"
    using regexp_match_Some [of x b ds t] by (auto simp: contains_token_def)
qed

text \<open>
  Claim C10, amended: \<open>filterOutOopsieId\<close> removes only the leftmost identifier token.
  It returns a text without identifier token unchanged; it returns a text with one
  without its leftmost token, all that precedes and all that follows the token kept; and
  applying it twice gives the same as applying it once exactly when the text has no
  identifier token left after the first application.
\<close>

theorem filterOutOopsieId_idempotent_iff:
  "(\<not> contains_token x \<longrightarrow> filterOutOopsieId x = x) \<and>
   (contains_token x \<longrightarrow>
      (\<exists>b ds t. x = b @ make_token ds @ t \<and> ds \<noteq> [] \<and> list_all is_digit ds \<and>
         (\<forall>b' ds' t'. x = b' @ make_token ds' @ t' \<and> ds' \<noteq> [] \<and> list_all is_digit ds'
            \<longrightarrow> length b \<le> length b') \<and>
         filterOutOopsieId x = b @ t)) \<and>
   (filterOutOopsieId (filterOutOopsieId x) = filterOutOopsieId x
      \<longleftrightarrow> \<not> contains_token (filterOutOopsieId x))"
proof (intro conjI impI)
  assume "\<not> contains_token x"
  then have "regexp_match x = None"
    using contains_token_iff [of x] by blast
  then show "filterOutOopsieId x = x"
    by (simp add: filterOutOopsieId_def)
next
  assume "contains_token x"
  then obtain b ds t where m: "regexp_match x = Some (b, ds, t)"
    by (auto simp: contains_token_iff)
  have split: "x = b @ make_token ds @ t \<and> ds \<noteq> [] \<and> list_all is_digit ds"
    using m by (rule regexp_match_Some)
  have first: "\<forall>b' ds' t'. x = b' @ make_token ds' @ t' \<and> ds' \<noteq> [] \<and> list_all is_digit ds'
            \<longrightarrow> length b \<le> length b'"
    using regexp_match_leftmost [OF m] by blast
  have "filterOutOopsieId x = b @ t"
    using m by (rule filterOutOopsieId_match)
  then show "\<exists>b ds t. x = b @ make_token ds @ t \<and> ds \<noteq> [] \<and> list_all is_digit ds \<and>
         (\<forall>b' ds' t'. x = b' @ make_token ds' @ t' \<and> ds' \<noteq> [] \<and> list_all is_digit ds'
            \<longrightarrow> length b \<le> length b') \<and>
         filterOutOopsieId x = b @ t"
    using split first by blast
next
  have a: "regexp_match y = None \<Longrightarrow> filterOutOopsieId y = y" for y
    by (simp add: filterOutOopsieId_def)
  have b: "regexp_match y \<noteq> None \<Longrightarrow> filterOutOopsieId y \<noteq> y" for y
    using filterOutOopsieId_shorter [of y] by auto
  show "filterOutOopsieId (filterOutOopsieId x) = filterOutOopsieId x
      \<longleftrightarrow> \<not> contains_token (filterOutOopsieId x)"
    using a [of "filterOutOopsieId x"] b [of "filterOutOopsieId x"]
      contains_token_iff [of "filterOutOopsieId x"]
    by blast
qed

theorem filterOutOopsieId_idempotent_iff_witness:
  "\<not> contains_token ''timeout'' \<and>
   filterOutOopsieId ''timeout'' = ''timeout'' \<and>
   contains_token ''__oopsieID_0__timeout'' \<and>
   filterOutOopsieId ''__oopsieID_0__timeout'' = ''timeout'' \<and>
   filterOutOopsieId (filterOutOopsieId ''__oopsieID_0__timeout'')
     = filterOutOopsieId ''__oopsieID_0__timeout''"
proof -
  have a: "\<not> contains_token ''timeout''"
    by (simp add: contains_token_iff match_here_def)
  have c: "contains_token ''__oopsieID_0__timeout''"
    by (simp add: contains_token_iff match_here_def is_digit_def)
  have b: "filterOutOopsieId ''__oopsieID_0__timeout'' = ''timeout''"
    by (simp add: filterOutOopsieId_def match_here_def is_digit_def make_token_def)
  show ?thesis
    using a b c filterOutOopsieId_idempotent_iff [of "''timeout''"]
      filterOutOopsieId_idempotent_iff [of "''__oopsieID_0__timeout''"]
    by simp
qed

subsection \<open>Recovering a record from a message\<close>

lemma network_registered_errors: "errors network_registered = []"
  by (simp add: network_registered_def eval_defs)

lemma network_registered_heap: "heap network_registered = [Object []]"
  by (simp add: network_registered_def eval_defs)

lemma network_registered_options:
  "errorFactories network_registered ''networkError'' = Some [(''reportImmediately'', JBool False)]"
  by (simp add: network_registered_def eval_defs)

lemma network_timeout_errors: "errors network_timeout = [JRef 1]"
  by (simp add: network_timeout_def factory_call_def registerError_def Let_def
      network_registered_errors network_registered_heap network_registered_options)

lemma network_timeout_heap:
  "heap network_timeout =
     [Object [],
      Error (Some ''__oopsieID_0__timeout'')
        [(''type'', JStr ''networkError''), (''oopsie'', JStr ''0.1'')]]"
  by (simp add: network_timeout_def factory_call_def registerError_def
      network_registered_errors network_registered_heap network_registered_options eval_defs)

text \<open>
  Claim C1: for every record created by a registered factory, \<^verbatim>\<open>recover\<close>
  (\<open>retrieveError\<close>) applied to the record's message returns that record, and it returns
  none for a text without token or with an index outside the registry. The comparison in
  \<open>retrieveError\<close> is \<^verbatim>\<open>errors.length <= pos\<close>, so a registered position is answered
  with \<^verbatim>\<open>null\<close>: after \<^verbatim>\<open>errorFactory('networkError', {})\<close> and a call of the factory
  with \<^verbatim>\<open>'timeout'\<close>, the registry holds the record at position 0, its message is
  \<^verbatim>\<open>__oopsieID_0__timeout\<close>, and \<open>retrieveError\<close> on that message is \<^verbatim>\<open>null\<close>.
\<close>

theorem retrieveError_misses_registered_record:
  "errors network_timeout = [JRef 1] \<and>
   heap_get (heap network_timeout) 1 =
     Some (Error (Some ''__oopsieID_0__timeout'')
             [(''type'', JStr ''networkError''), (''oopsie'', JStr ''0.1'')]) \<and>
   retrieveError network_timeout ''__oopsieID_0__timeout'' = JNull"
  by (simp add: network_timeout_errors network_timeout_heap heap_get_def retrieveError_def
      match_here_def is_digit_def parseInt_def digit_value_def)

text \<open>
  In every state and for every text \<open>retrieveError\<close> returns \<^verbatim>\<open>null\<close> or
  \<^verbatim>\<open>undefined\<close>, never a record; a text without token gives \<^verbatim>\<open>null\<close>.
\<close>

lemma retrieveError_no_record:
  "retrieveError st msg = JNull \<or> retrieveError st msg = JUndefined"
  by (simp add: retrieveError_def array_get_def split: option.splits)

lemma retrieveError_no_token:
  "regexp_match msg = None \<Longrightarrow> retrieveError st msg = JNull"
  by (simp add: retrieveError_def)

text \<open>The message of the record of the scenario, with its token removed, is the raw message.\<close>

lemma network_timeout_display:
  "filterOutOopsieId ''__oopsieID_0__timeout'' = ''timeout''"
  by (simp add: filterOutOopsieId_def match_here_def is_digit_def make_token_def)

subsection \<open>stringify\<close>

text \<open>
  Claim C2: for every input value, \<^verbatim>\<open>serialize\<close> (\<open>stringify\<close>) returns a string and never
  raises. The \<^verbatim>\<open>catch\<close> clause of \<open>stringify\<close> reads \<^verbatim>\<open>err.message\<close>; when the value
  caught is \<^verbatim>\<open>null\<close> this read is itself a TypeError, which leaves \<open>stringify\<close>. The
  input here is an object whose \<^verbatim>\<open>toJSON\<close> method is
  \<^verbatim>\<open>function () { throw null; }\<close>.
\<close>

theorem stringify_raises_when_toJSON_throws_null:
  "stringify plain_env ((init_state plain_env)\<lparr>heap := [ThrowingToJSON (Thrown JNull)]\<rparr>) (JRef 0)
     = Inl (TypeError ''cannot read a property of null'')"
  by (simp add: eval_defs)

text \<open>
  The object \<^verbatim>\<open>a\<close> with \<^verbatim>\<open>a.self = a\<close> is encoded as
  \<^verbatim>\<open>{"self":"JSON.circularRef_0"}\<close>.
\<close>

lemma stringify_self_reference:
  "stringify plain_env ((init_state plain_env)\<lparr>heap := [Object [(''self'', JRef 0)]]\<rparr>) (JRef 0)
     = Inr (Some (''{'' @ quote ''self'' @ '':'' @ quote ''JSON.circularRef_0'' @ ''}''))"
  by (simp add: eval_defs)

text \<open>
  Where the claim does hold. On a store without throwing \<^verbatim>\<open>toJSON\<close> methods, with the
  default translators and a host whose jQuery serialization fails with engine errors only,
  the replacer always returns, the encoder raises engine errors only, and \<open>stringify\<close>
  returns a string for every value, cyclic or not.
\<close>

lemma data_store_toJSON: "data_store h \<Longrightarrow> toJSON_throws h v = None"
  by (auto simp: data_store_def toJSON_throws_def heap_get_def list_all_length
      split: jsval.splits option.splits jsobj.splits)

lemma isJQuery_total: "\<exists>b. isJQuery h v = Inr b"
  by (cases v) (auto simp: isJQuery_def get_property_def split: option.splits)

lemma default_translate_ok:
  "apply_translators (default_translators e) h v = Inr r \<Longrightarrow> encodable h r"
  using isJQuery_total [of h v]
  by (auto simp: default_translators_def encodable_def isFunction_def isRegExp_def isReallyNaN_def isInfinite_def
      split: sum.splits if_splits bool.splits jsval.splits option.splits jsobj.splits)

lemma default_translate_err:
  "tame_env e \<Longrightarrow> apply_translators (default_translators e) h v = Inl x \<Longrightarrow> engine_error x"
  using isJQuery_total [of h v]
  by (auto simp: default_translators_def tame_env_def
      split: sum.splits if_splits bool.splits)

lemma translation_error_engine:
  "engine_error x \<Longrightarrow> \<exists>s. translation_error e h x = Inr (JStr s)"
  by (cases x) (simp_all add: engine_error_def translation_error_def message_of_def to_string_def)

lemma enumeration_order_default:
  "enumeration_order (default_translators e) = default_translators e"
  by (simp add: enumeration_order_def default_translators_def is_index_def is_digit_def)

lemma translate_total:
  assumes "tame_env e" "translators st = default_translators e"
  shows "\<exists>seen1 r. circularRefSafeTranslate e st seen v = Inr (seen1, r) \<and> encodable (heap st) r"
proof (cases "apply_translators (default_translators e) (heap st) v")
  case (Inl x)
  then obtain s where "translation_error e (heap st) x = Inr (JStr s)"
    using default_translate_err [OF assms(1)] translation_error_engine by blast
  then show ?thesis using Inl assms(2)
    by (auto simp: circularRefSafeTranslate_def encodable_def enumeration_order_default
        split: option.splits)
next
  case (Inr r)
  then have "encodable (heap st) r" by (rule default_translate_ok)
  then show ?thesis using Inr assms(2)
    by (auto simp: circularRefSafeTranslate_def encodable_def enumeration_order_default
        split: option.splits)
qed

lemma json_raises_engine_errors:
  assumes "data_store (heap st)" "translators st = default_translators e" "tame_env e"
  shows "(\<forall>x. json_str e st stack seen v = Inl x \<longrightarrow> engine_error x)"
    and "(\<forall>x. json_members e st stack seen ps = Inl x \<longrightarrow> engine_error x)"
    and "(\<forall>x. json_elements e st stack seen vs = Inl x \<longrightarrow> engine_error x)"
  using assms
proof (induction e st stack seen v and e st stack seen ps and e st stack seen vs
    rule: json_str_json_members_json_elements.induct)
  case (1 e st stack seen v)
  obtain seen1 r where t: "circularRefSafeTranslate e st seen v = Inr (seen1, r)"
    using translate_total [OF "1.prems"(3) "1.prems"(2)] by blast
  have j: "toJSON_throws (heap st) v = None"
    using "1.prems"(1) by (rule data_store_toJSON)
  show ?case
  proof (intro allI impI)
    fix x assume a: "json_str e st stack seen v = Inl x"
    show "engine_error x"
    proof (cases r)
      case (JRef a')
      show ?thesis
      proof (cases "heap_get (heap st) a'")
        case None
        then show ?thesis using a t j JRef by (simp add: json_str.simps)
      next
        case (Some ob)
        show ?thesis
        proof (cases "a' \<in> set stack")
          case True
          then show ?thesis using a t j JRef Some
            by (cases ob) (auto simp: json_str.simps engine_error_def)
        next
          case False
          show ?thesis
          proof (cases ob)
            case (Array es)
            have "\<forall>x. json_elements e st (a' # stack) seen1 es = Inl x \<longrightarrow> engine_error x"
              using "1.IH"(2) [OF j t refl JRef Some Array False "1.prems"] Array by simp
            then show ?thesis using a t j JRef Some Array False
              by (auto simp: json_str.simps split: sum.splits)
          next
            case (Function n)
            then show ?thesis using a t j JRef Some by (simp add: json_str.simps)
          next
            case (Object x1)
            have "\<forall>x. json_members e st (a' # stack) seen1 (enumerable_props ob) = Inl x \<longrightarrow> engine_error x"
              using "1.IH"(1) [OF j t refl JRef Some Object False "1.prems"] Object by simp
            then show ?thesis using a t j JRef Some Object False
              by (auto simp: json_str.simps split: sum.splits)
          next
            case (RegExp x4)
            have "\<forall>x. json_members e st (a' # stack) seen1 (enumerable_props ob) = Inl x \<longrightarrow> engine_error x"
              using "1.IH"(3) [OF j t refl JRef Some RegExp False "1.prems"] RegExp by simp
            then show ?thesis using a t j JRef Some RegExp False
              by (auto simp: json_str.simps split: sum.splits)
          next
            case (Error x51 x52)
            have "\<forall>x. json_members e st (a' # stack) seen1 (enumerable_props ob) = Inl x \<longrightarrow> engine_error x"
              using "1.IH"(4) [OF j t refl JRef Some Error False "1.prems"] Error by simp
            then show ?thesis using a t j JRef Some Error False
              by (auto simp: json_str.simps split: sum.splits)
          next
            case (ThrowingToJSON x6)
            have "\<forall>x. json_members e st (a' # stack) seen1 (enumerable_props ob) = Inl x \<longrightarrow> engine_error x"
              using "1.IH"(5) [OF j t refl JRef Some ThrowingToJSON False "1.prems"] ThrowingToJSON by simp
            then show ?thesis using a t j JRef Some ThrowingToJSON False
              by (auto simp: json_str.simps split: sum.splits)
          qed
        qed
      qed
    qed (use a t j in \<open>simp_all add: json_str.simps\<close>)
  qed
next
  case (2 e st stack seen)
  then show ?case by simp
next
  case (3 e st stack seen k v ps)
  show ?case
  proof (intro allI impI)
    fix x assume a: "json_members e st stack seen ((k, v) # ps) = Inl x"
    show "engine_error x"
    proof (cases "json_str e st stack seen v")
      case (Inl y)
      then show ?thesis using a "3.IH"(1) "3.prems" by simp
    next
      case (Inr p)
      obtain seen1 r where p: "p = (seen1, r)" by (cases p)
      then show ?thesis using a Inr "3.IH"(2) [OF Inr [unfolded p] refl] "3.prems"
        by (auto split: sum.splits)
    qed
  qed
next
  case (4 e st stack seen)
  then show ?case by simp
next
  case (5 e st stack seen v vs)
  show ?case
  proof (intro allI impI)
    fix x assume a: "json_elements e st stack seen (v # vs) = Inl x"
    show "engine_error x"
    proof (cases "json_str e st stack seen v")
      case (Inl y)
      then show ?thesis using a "5.IH"(1) "5.prems" by simp
    next
      case (Inr p)
      obtain seen1 r where p: "p = (seen1, r)" by (cases p)
      then show ?thesis using a Inr "5.IH"(2) [OF Inr [unfolded p] refl] "5.prems"
        by (auto split: sum.splits)
    qed
  qed
qed


lemma default_translate_shape:
  "apply_translators (default_translators e) h v = Inr r \<Longrightarrow> r = v \<or> (\<exists>s. r = JStr s)"
  using isJQuery_total [of h v]
  by (auto simp: default_translators_def split: sum.splits if_splits bool.splits)

lemma translate_shape:
  assumes "tame_env e" "translators st = default_translators e"
    and "circularRefSafeTranslate e st seen v = Inr (seen1, r)"
  shows "r = v \<or> (\<exists>s. r = JStr s)"
proof (cases "apply_translators (default_translators e) (heap st) v")
  case (Inl x)
  then obtain s where "translation_error e (heap st) x = Inr (JStr s)"
    using default_translate_err [OF assms(1)] translation_error_engine by blast
  then show ?thesis using Inl assms(2,3)
    by (auto simp: circularRefSafeTranslate_def enumeration_order_default
        split: option.splits if_splits)
next
  case (Inr r')
  then have "r' = v \<or> (\<exists>s. r' = JStr s)" by (rule default_translate_shape)
  then show ?thesis using Inr assms(2,3)
    by (auto simp: circularRefSafeTranslate_def enumeration_order_default
        split: option.splits if_splits)
qed

lemma json_str_root_encodes:
  assumes "data_store (heap st)" "translators st = default_translators e" "tame_env e"
    and "valid_ref (heap st) v" and "json_str e st stack seen v = Inr (seen2, res)"
  shows "res \<noteq> None"
proof -
  obtain seen1 r where t: "circularRefSafeTranslate e st seen v = Inr (seen1, r)"
      and enc: "encodable (heap st) r"
    using translate_total [OF assms(3) assms(2)] by blast
  have sh: "r = v \<or> (\<exists>s. r = JStr s)"
    using translate_shape [OF assms(3) assms(2) t] .
  have j: "toJSON_throws (heap st) v = None"
    using assms(1) by (rule data_store_toJSON)
  show ?thesis
  proof (cases r)
    case (JRef a)
    then have "a < length (heap st)" using sh assms(4) by (auto simp: valid_ref_def)
    then obtain ob where ob: "heap_get (heap st) a = Some ob" by (simp add: heap_get_def)
    show ?thesis using assms(5) t j JRef ob enc
      by (cases ob) (auto simp: json_str.simps encodable_def split: if_splits sum.splits)
  qed (use assms(5) t j enc in \<open>auto simp: json_str.simps encodable_def\<close>)
qed

text \<open>\<open>stringify\<close> returns a string on such inputs.\<close>

lemma stringify_total:
  assumes "data_store (heap st)" "translators st = default_translators e" "tame_env e"
    and "valid_ref (heap st) v"
  shows "\<exists>s. stringify e st v = Inr (Some s)"
proof (cases "json_str e st [] [] v")
  case (Inl x)
  then have "engine_error x"
    using json_raises_engine_errors(1) [OF assms(1,2,3)] by blast
  then show ?thesis using Inl
    by (cases x) (simp_all add: stringify_def engine_error_def message_of_def to_string_def)
next
  case (Inr p)
  obtain seen2 res where p: "p = (seen2, res)" by (cases p)
  then have "res \<noteq> None"
    using json_str_root_encodes [OF assms] Inr by blast
  then show ?thesis using Inr p by (auto simp: stringify_def)
qed

subsection \<open>The audit wrapper\<close>

text \<open>
  Claim C3: when the wrapped function throws a plain value that is not a record, the
  value rethrown by the wrapper is a classified record whose message holds the label,
  \<^verbatim>\<open>Arguments:\<close> and the serialized arguments. The wrapper around
  \<^verbatim>\<open>function () { throw 'boom'; }\<close>, labelled \<^verbatim>\<open>f\<close> and called with the argument 1,
  rethrows the string \<^verbatim>\<open>'boom'\<close>, which is not a record.
\<close>

theorem audit_rethrows_plain_value:
  "fst (audited plain_env ''f'' throws_boom (JRef 0) [JNum 1]
          ((init_state plain_env)\<lparr>heap := [Object []]\<rparr>)) = Inl (Thrown (JStr ''boom'')) \<and>
   classified_record
     (heap (snd (audited plain_env ''f'' throws_boom (JRef 0) [JNum 1]
                   ((init_state plain_env)\<lparr>heap := [Object []]\<rparr>))))
     (Thrown (JStr ''boom'')) = False"
  by (simp add: eval_defs split: prod.splits)

text \<open>Creating an error leaves every object that exists already as it is.\<close>

lemma registerError_heap_prefix:
  "n \<le> a \<Longrightarrow> take n (heap (snd (registerError a st))) = take n (heap st)"
  by (simp add: registerError_def Let_def split: option.splits)

lemma factory_call_heap_prefix:
  "take (length (heap st)) (heap (snd (factory_call e t m opts st))) = heap st"
  by (simp add: factory_call_def Let_def registerError_heap_prefix split: option.splits)

lemma makeError_heap_prefix:
  "take (length (heap st)) (heap (snd (makeError e t m opts st))) = heap st"
  by (simp add: makeError_def factory_call_heap_prefix split: option.splits)

lemma normalize_heap_prefix:
  "take (length (heap st)) (heap (snd (normalize e err st))) = heap st"
proof (cases "exn_typeof_object (heap st) err")
  case True
  then show ?thesis by (simp add: normalize_def)
next
  case False
  obtain r st1 where m: "makeError e ''oopsieError'' None JUndefined st = (r, st1)"
    by (cases "makeError e ''oopsieError'' None JUndefined st")
  then have "take (length (heap st)) (heap st1) = heap st"
    using makeError_heap_prefix [of st e "''oopsieError''" None JUndefined] by simp
  then show ?thesis using False m by (cases r) (simp_all add: normalize_def)
qed

text \<open>A block that fails has changed nothing but what \<open>normalize\<close> created.\<close>

lemma augment_failed_state:
  "augment e name ctx arguments err st = (Failed x, st2) \<Longrightarrow> st2 = snd (normalize e err st)"
  by (auto simp: augment_def Let_def split: prod.splits sum.splits option.splits)

lemma augment_failed_heap_prefix:
  assumes "augment e name ctx arguments err st = (Failed x, st2)"
  shows "take (length (heap st)) (heap st2) = heap st"
  using augment_failed_state [OF assms] normalize_heap_prefix [of st e err] by simp

text \<open>Where the host defines no global \<^verbatim>\<open>message\<close>, the block always fails.\<close>

lemma augment_fails_without_global:
  assumes "globalMessage e = None"
  shows "\<exists>x st2. augment e name ctx arguments err st = (Failed x, st2)"
  using assms
  by (auto simp: augment_def Let_def split: prod.splits sum.splits)

text \<open>
  Claim C4: for every function that throws, if the normalization or message-augmentation
  steps of the audit wrapper themselves throw for any reason, the wrapped function
  re-raises the original thrown value unmodified. Whenever \<open>fn\<close> throws \<open>err\<close> and a
  step of the inner \<^verbatim>\<open>try\<close> block raises an exception \<open>x\<close>, whatever the step and the
  exception, the wrapper throws \<open>err\<close>, and every object that existed when \<open>fn\<close> threw,
  the thrown one included, is as \<open>fn\<close> left it.
\<close>

theorem audit_rethrows_original:
  assumes "fn ctx args (enter_call args st) = (Inl err, st1)"
    and "augment e name ctx (JRef (length (heap st))) err st1 = (Failed x, st2)"
  shows "audited e name fn ctx args st = (Inl err, st2) \<and>
         take (length (heap st1)) (heap st2) = heap st1"
proof
  show "audited e name fn ctx args st = (Inl err, st2)"
    using assms by (simp add: audited_def)
  show "take (length (heap st1)) (heap st2) = heap st1"
    using assms(2) by (rule augment_failed_heap_prefix)
qed

text \<open>
  An instance on the page that defines a global \<^verbatim>\<open>message\<close>: the thrown value is a
  string, reading the message of what \<^verbatim>\<open>makeError\<close> returned fails, and the string is
  rethrown.
\<close>

theorem audit_rethrows_original_witness:
  "throws_boom (JRef 0) [] (enter_call [] (init_state message_env))
     = (Inl (Thrown (JStr ''boom'')), enter_call [] (init_state message_env)) \<and>
   augment message_env ''f'' (JRef 0) (JRef (length (heap (init_state message_env))))
       (Thrown (JStr ''boom'')) (enter_call [] (init_state message_env))
     = (Failed (TypeError ''cannot read a property of undefined''),
        snd (makeError message_env ''oopsieError'' None JUndefined
               (enter_call [] (init_state message_env)))) \<and>
   audited message_env ''f'' throws_boom (JRef 0) [] (init_state message_env)
     = (Inl (Thrown (JStr ''boom'')),
        snd (makeError message_env ''oopsieError'' None JUndefined
               (enter_call [] (init_state message_env)))) \<and>
   take (length (heap (enter_call [] (init_state message_env))))
        (heap (snd (makeError message_env ''oopsieError'' None JUndefined
                      (enter_call [] (init_state message_env)))))
     = heap (enter_call [] (init_state message_env))"
proof -
  have h: "throws_boom (JRef 0) [] (enter_call [] (init_state message_env))
     = (Inl (Thrown (JStr ''boom'')), enter_call [] (init_state message_env))"
    by (simp add: throws_boom_def)
  have m: "fst (makeError message_env ''oopsieError'' None JUndefined
                  (enter_call [] (init_state message_env))) = Inr JUndefined"
    by (simp add: eval_defs)
  have a: "augment message_env ''f'' (JRef 0) (JRef (length (heap (init_state message_env))))
       (Thrown (JStr ''boom'')) (enter_call [] (init_state message_env))
     = (Failed (TypeError ''cannot read a property of undefined''),
        snd (makeError message_env ''oopsieError'' None JUndefined
               (enter_call [] (init_state message_env))))"
  proof -
    obtain r s1 where mk: "makeError message_env ''oopsieError'' None JUndefined
                  (enter_call [] (init_state message_env)) = (r, s1)"
      by (cases "makeError message_env ''oopsieError'' None JUndefined
                  (enter_call [] (init_state message_env))")
    then have "r = Inr JUndefined" using m by simp
    then show ?thesis
      using mk
      by (simp add: augment_def normalize_def exn_typeof_object_def typeof_object_def
          message_of_def get_property_def)
  qed
  show ?thesis
    using h a
      audit_rethrows_original [where fn = throws_boom and ctx = "JRef 0" and args = "[]"
        and st = "init_state message_env" and err = "Thrown (JStr ''boom'')"
        and ?st1.0 = "enter_call [] (init_state message_env)" and e = message_env
        and name = "''f''" and x = "TypeError ''cannot read a property of undefined''"
        and ?st2.0 = "snd (makeError message_env ''oopsieError'' None JUndefined
               (enter_call [] (init_state message_env)))"]
    by simp
qed

text \<open>
  On a host without a global \<^verbatim>\<open>message\<close> the block fails in every call, so the wrapper
  rethrows whatever \<open>fn\<close> throws, unmodified.
\<close>

lemma audit_without_global:
  assumes "globalMessage e = None"
    and "fn ctx args (enter_call args st) = (Inl err, st1)"
  shows "\<exists>st2. audited e name fn ctx args st = (Inl err, st2) \<and>
           take (length (heap st1)) (heap st2) = heap st1"
proof -
  obtain x st2 where a: "augment e name ctx (JRef (length (heap st))) err st1 = (Failed x, st2)"
    using augment_fails_without_global [OF assms(1)] by blast
  have "audited e name fn ctx args st = (Inl err, st2)"
    using assms(2) a by (simp add: audited_def)
  moreover have "take (length (heap st1)) (heap st2) = heap st1"
    using a by (rule augment_failed_heap_prefix)
  ultimately show ?thesis by blast
qed

text \<open>
  On a page that defines a global \<^verbatim>\<open>message\<close> no step fails for a thrown record: the
  block runs to its end, and the wrapper rethrows the record with the page's text as its
  message, the augmented message being lost.
\<close>

lemma audit_with_global_message:
  "heap reporter_supplied =
     [Error (Some ''__oopsieID_0__down'')
        [(''type'', JStr ''oopsieError''), (''oopsie'', JStr ''0.1'')]] \<and>
   fst (audited message_env ''f'' throws_first_object (JRef 0) [] reporter_supplied)
     = Inl (Thrown (JRef 0)) \<and>
   heap_get (heap (snd (audited message_env ''f'' throws_first_object (JRef 0) []
                          reporter_supplied))) 0
     = Some (Error (Some ''GLOBAL'')
               [(''type'', JStr ''oopsieError''), (''oopsie'', JStr ''0.1'')])"
  by (simp add: reporter_supplied_def eval_defs split: prod.splits)

subsection \<open>The reporting pipeline\<close>

lemma reporter_supplied_heap:
  "heap reporter_supplied =
     [Error (Some ''__oopsieID_0__down'')
        [(''type'', JStr ''oopsieError''), (''oopsie'', JStr ''0.1'')]]"
  by (simp add: reporter_supplied_def eval_defs)

text \<open>
  Claim C5: when the \<^verbatim>\<open>before\<close> hook of the handler resolves the gate, the externally
  supplied reporter is invoked exactly once with the record and the extra arguments, and
  then the \<^verbatim>\<open>after\<close> hook is invoked. With the reporter stored in
  \<^verbatim>\<open>oopsie.report.reporter\<close> and the default handler, whose \<^verbatim>\<open>before\<close> hook resolves
  the gate, reporting the registered record ends in a TypeError raised by the callback:
  the gate is resolved, and neither the reporter nor an \<^verbatim>\<open>after\<close> hook has been
  invoked.
\<close>

theorem report_calls_namespace_object:
  "report reporter_supplied = ReportNamespace True \<and>
   events reporter_supplied = [] \<and>
   lookup_handler plain_env reporter_supplied (JRef 0) = defaultHandler \<and>
   reportError plain_env (JRef 0) reporter_supplied
     = (Resolved [], Some (TypeError ''oopsie.report.apply is not a function''),
        reporter_supplied)"
  by (simp add: reportError_def lookup_handler_def run_gate_def done_callback_def
       reporter_supplied_heap get_property_def heap_get_def object_property_def to_string_def
       defaultHandler_def)
     (simp add: reporter_supplied_def eval_defs)

text \<open>
  Where the host has replaced \<^verbatim>\<open>oopsie.report\<close> itself by its reporter function, a
  resolved gate invokes it once, with the record followed by the extra arguments, and the
  \<^verbatim>\<open>after\<close> hook after it.
\<close>

lemma report_function_invoked:
  assumes "report st = ReportFunction"
    and "lookup_handler e st err = \<lparr>before = Before (Resolve extra # rest), after = After n\<rparr>"
  shows "reportError e err st =
           (Resolved extra, None,
            st\<lparr>events := events st @ [ReporterInvoked (err # extra), AfterInvoked (After n)]\<rparr>)"
proof -
  have settled: "foldl (gate_step cb) (Resolved extra, x, s) actions = (Resolved extra, x, s)"
    for cb x s actions
    by (induction actions) simp_all
  show ?thesis
    using assms by (simp add: reportError_def run_gate_def done_callback_def Let_def settled)
qed

text \<open>A settled gate ignores what the hook does to it later.\<close>

lemma gate_settled:
  "d \<noteq> Pending \<Longrightarrow> foldl (gate_step cb) (d, x, st) actions = (d, x, st)"
  by (induction actions) (cases d; simp)+

text \<open>
  Claim C6: for every reported record whose handler's \<^verbatim>\<open>before\<close> hook rejects the gate,
  neither the external reporter nor the \<^verbatim>\<open>after\<close> hook is invoked. The gate ends
  rejected, the callback has not run, and the state, with its trace of reporter and
  \<^verbatim>\<open>after\<close> invocations, is the one before the report; what the hook does to the gate
  after rejecting it changes nothing.
\<close>

theorem rejected_gate_reports_nothing:
  assumes "before (lookup_handler e st err) = Before (Reject args # rest)"
  shows "reportError e err st = (Rejected args, None, st) \<and>
         events (snd (snd (reportError e err st))) = events st"
  using assms by (simp add: reportError_def run_gate_def Let_def gate_settled)

lemma rejecting_host_handler:
  "lookup_handler plain_env rejecting_host (JRef 0)
     = \<lparr>before = Before [Reject []], after = After 1\<rparr>"
  by (simp add: rejecting_host_def eval_defs)

theorem rejected_gate_reports_nothing_witness:
  "before (lookup_handler plain_env rejecting_host (JRef 0)) = Before [Reject []] \<and>
   after (lookup_handler plain_env rejecting_host (JRef 0)) = After 1 \<and>
   report rejecting_host = ReportFunction \<and>
   reportError plain_env (JRef 0) rejecting_host = (Rejected [], None, rejecting_host) \<and>
   events (snd (snd (reportError plain_env (JRef 0) rejecting_host))) = events rejecting_host"
proof -
  have h: "before (lookup_handler plain_env rejecting_host (JRef 0)) = Before (Reject [] # [])"
    by (simp add: rejecting_host_handler)
  have r: "report rejecting_host = ReportFunction"
    by (simp add: rejecting_host_def addHandler_def)
  show ?thesis
    using rejected_gate_reports_nothing [OF h] r by (simp add: rejecting_host_handler)
qed

subsection \<open>Creating errors\<close>

text \<open>
  Claim C7: \<^verbatim>\<open>makeError\<close> with a type that has no factory returns a usable record of
  the generic fallback type whose message names the unknown type and contains the original
  message; in particular \<^verbatim>\<open>makeError('doesNotExist', 'boom')\<close> does. The factory has no
  \<^verbatim>\<open>return\<close> statement: the call returns \<^verbatim>\<open>undefined\<close>. The record of type
  \<^verbatim>\<open>oopsieError\<close> with that message is created, but it is only stored in the registry.
\<close>

theorem makeError_returns_undefined:
  "fst (makeError plain_env ''doesNotExist'' (Some ''boom'') JUndefined (init_state plain_env))
     = Inr JUndefined \<and>
   errors (snd (makeError plain_env ''doesNotExist'' (Some ''boom'') JUndefined
                  (init_state plain_env)))
     = [JRef 0] \<and>
   heap (snd (makeError plain_env ''doesNotExist'' (Some ''boom'') JUndefined
                (init_state plain_env)))
     = [Error (Some (''__oopsieID_0__[oopsie.makeError] unknown error type'' @ [CHR 0x0A] @
                     ''type = '' @ [CHR 0x22] @ ''doesNotExist'' @ [CHR 0x22, CHR 0x0A] @
                     ''boom''))
          [(''type'', JStr ''oopsieError''), (''oopsie'', JStr ''0.1'')]]"
  by (simp add: eval_defs)

text \<open>No call of a factory, and so no call of \<open>makeError\<close> that reaches one, returns a record.\<close>

lemma factory_call_returns_undefined:
  "fst (factory_call e t m opts st) = Inr JUndefined \<or>
   fst (factory_call e t m opts st) = Inl (TypeError ''undefined is not a function'')"
  by (simp add: factory_call_def Let_def split: option.splits)

text \<open>
  Claim C9: options passed to one call of a factory are merged over the defaults of the
  factory for that call only and leave the stored defaults unchanged. The factory of
  \<^verbatim>\<open>networkError\<close> is created with \<^verbatim>\<open>reportImmediately\<close> false; after one call with
  the options \<^verbatim>\<open>{reportImmediately: true}\<close> (the object at address 1) the options stored
  in the factory hold \<^verbatim>\<open>reportImmediately\<close> true.
\<close>

theorem factory_call_changes_defaults:
  "errorFactories network_registered ''networkError''
     = Some [(''reportImmediately'', JBool False)] \<and>
   errorFactories
     (snd (factory_call plain_env ''networkError'' (Some ''timeout'') (JRef 1)
        (network_registered\<lparr>heap := [Object [], Object [(''reportImmediately'', JBool True)]]\<rparr>)))
     ''networkError'' = Some [(''reportImmediately'', JBool True)]"
  by (simp add: network_registered_options factory_call_def registerError_def Let_def
      extend_source_def heap_get_def enumerable_props_def enumeration_order_def is_index_def
      is_digit_def)

subsection \<open>Registering a name twice\<close>

lemma registerError_factories:
  "errorFactories (snd (registerError a st)) = errorFactories st"
  by (simp add: registerError_def Let_def)

lemma extend_source_undefined: "extend_source h JUndefined = []"
  by (simp add: extend_source_def)

lemma factory_call_factories:
  "errorFactories (snd (factory_call e t m JUndefined st)) = errorFactories st"
  by (auto simp: factory_call_def Let_def registerError_factories extend_source_undefined
      split: option.splits)

lemma makeError_factories:
  "errorFactories (snd (makeError e t m JUndefined st)) = errorFactories st"
  by (simp add: makeError_def factory_call_factories split: option.splits)

lemma thrown_makeError_factories:
  "errorFactories
     (snd (case makeError e t m JUndefined st of
             (Inl err, st3) \<Rightarrow> (err, st3)
           | (Inr v, st3) \<Rightarrow> (Thrown v, st3)))
     = errorFactories st"
proof -
  obtain r st3 where m: "makeError e t m JUndefined st = (r, st3)"
    by (cases "makeError e t m JUndefined st")
  then have "errorFactories st3 = errorFactories st"
    using makeError_factories [of e t m st] by simp
  then show ?thesis using m by (cases r) simp_all
qed

lemma assert_failure_factories:
  "errorFactories (snd (assert_failure e msgArgs st)) = errorFactories st"
proof (cases "stringify_all e st msgArgs")
  case (Inl err)
  then show ?thesis by (simp add: assert_failure_def)
next
  case (Inr parts)
  then show ?thesis
    by (simp add: assert_failure_def Let_def thrown_makeError_factories)
qed

lemma set_translator_keys:
  "k \<in> fst ` set ts \<Longrightarrow> map fst (set_translator ts k t) = map fst ts"
  by (induction ts) force+

lemma set_translator_lookup: "map_of (set_translator ts k t) k = Some t"
  by (induction ts) auto

text \<open>
  Claim C8, as stated: registering a second factory under a registered type, or a second
  translator under a registered translator name, fails at registration time and does not
  overwrite. \<open>addTranslator\<close> has no such check: registering a translator named
  \<^verbatim>\<open>undefined\<close>, a name in use, returns normally, and afterwards \<open>stringify\<close> encodes
  \<^verbatim>\<open>undefined\<close> with the new translator.
\<close>

theorem addTranslator_overwrites:
  "map fst (translators (init_state plain_env))
     = [''undefined'', ''function'', ''RegExp'', ''NaN'', ''infinite'', ''jQuery''] \<and>
   stringify plain_env (init_state plain_env) JUndefined = Inr (Some (quote ''undefined'')) \<and>
   fst (addTranslator plain_env ''undefined'' (Some (\<lambda>h v. Inr (v = JUndefined)))
          (Some (\<lambda>h v. Inr (JStr ''replaced''))) (init_state plain_env)) = Inr () \<and>
   stringify plain_env
     (snd (addTranslator plain_env ''undefined'' (Some (\<lambda>h v. Inr (v = JUndefined)))
             (Some (\<lambda>h v. Inr (JStr ''replaced''))) (init_state plain_env)))
     JUndefined = Inr (Some (quote ''replaced''))"
  by (simp add: eval_defs)

text \<open>
  Claim C8, amended: \<open>errorFactory\<close> on a type that has a factory throws and leaves the
  table of factories as it was; \<open>addTranslator\<close> with a name in use and two functions
  returns normally and puts the new pair in the place of the old one, the names and their
  order unchanged.
\<close>

theorem duplicate_registration:
  "(errorFactories st type \<noteq> None \<longrightarrow>
      (\<exists>err st1. errorFactory e type options st = (Inl err, st1) \<and>
                  errorFactories st1 = errorFactories st)) \<and>
   (name \<noteq> [] \<and> name \<in> fst ` set (translators st) \<longrightarrow>
      addTranslator e name (Some ev) (Some tr) st
        = (Inr (), st\<lparr>translators := set_translator (translators st) name (ev, tr)\<rparr>) \<and>
      map fst (set_translator (translators st) name (ev, tr)) = map fst (translators st) \<and>
      map_of (set_translator (translators st) name (ev, tr)) name = Some (ev, tr))"
proof (intro conjI impI)
  assume reg: "errorFactories st type \<noteq> None"
  obtain err st1 where
    a: "assert_failure e [JStr ''error factory already exists'', JStr type, options] st
          = (err, st1)"
    by (cases "assert_failure e [JStr ''error factory already exists'', JStr type, options] st")
  then have "errorFactories st1 = errorFactories st"
    using assert_failure_factories
      [of e "[JStr ''error factory already exists'', JStr type, options]" st]
    by simp
  moreover have "errorFactory e type options st = (Inl err, st1)"
    using reg a by (simp add: errorFactory_def assert_def)
  ultimately show "\<exists>err st1. errorFactory e type options st = (Inl err, st1) \<and>
                  errorFactories st1 = errorFactories st" by blast
next
  assume "name \<noteq> [] \<and> name \<in> fst ` set (translators st)"
  then show "addTranslator e name (Some ev) (Some tr) st
        = (Inr (), st\<lparr>translators := set_translator (translators st) name (ev, tr)\<rparr>)"
    by (simp add: addTranslator_def assert_def)
next
  assume "name \<noteq> [] \<and> name \<in> fst ` set (translators st)"
  then show "map fst (set_translator (translators st) name (ev, tr)) = map fst (translators st)"
    by (simp add: set_translator_keys)
next
  show "map_of (set_translator (translators st) name (ev, tr)) name = Some (ev, tr)"
    by (rule set_translator_lookup)
qed

theorem duplicate_registration_witness:
  "errorFactories (init_state plain_env) ''oopsieError'' \<noteq> None \<and>
   (\<exists>err st1. errorFactory plain_env ''oopsieError'' JUndefined (init_state plain_env)
                 = (Inl err, st1) \<and>
       errorFactories st1 = errorFactories (init_state plain_env)) \<and>
   ''NaN'' \<in> fst ` set (translators (init_state plain_env)) \<and>
   fst (addTranslator plain_env ''NaN'' (Some (\<lambda>h v. Inr False)) (Some (\<lambda>h v. Inr v))
          (init_state plain_env)) = Inr () \<and>
   map fst (set_translator (translators (init_state plain_env)) ''NaN''
              ((\<lambda>h v. Inr False), (\<lambda>h v. Inr v)))
     = map fst (translators (init_state plain_env))"
proof -
  have f: "errorFactories (init_state plain_env) ''oopsieError'' \<noteq> None"
    by (simp add: init_state_def)
  have t: "''NaN'' \<noteq> [] \<and> ''NaN'' \<in> fst ` set (translators (init_state plain_env))"
    by (simp add: init_state_def default_translators_def)
  show ?thesis
    using f t
      duplicate_registration [where st = "init_state plain_env" and type = "''oopsieError''"
        and e = plain_env and options = JUndefined and name = "''NaN''"
        and ev = "\<lambda>h v. Inr False" and tr = "\<lambda>h v. Inr v"]
    by simp
qed

end
